theory Spec2Isabelle
  imports Complex_Main "HOL-Library.Log_Nat"
begin

section \<open>Order lifecycle and payment reconciliation of the food-ordering backend\<close>

text \<open>
  The development embeds the order handlers of \<^verbatim>\<open>server.js\<close> (order creation,
  \<^verbatim>\<open>verify-payment\<close>, the gateway webhook, accept, reject, the generic status update
  and the auto-reject callback) and the order creation of the second server file of the
  repository.  A handler is a function from the server state to a reply, the new state
  and the list of notifications it sent.  Database rows are records, tables are maps
  from the primary key.  An amount of money in a table or in a message is the decimal
  number written there, a rational; the JavaScript code reads it into a double and
  computes with doubles, and so does the model: every sum, product and comparison with
  the tolerances 0.01 and 0.02 is the one of IEEE 754 binary64 arithmetic.  Database
  calls are taken to succeed, but for a statement that is handed a number that is not
  finite; what a handler does when another query throws is not modelled.
\<close>

subsection \<open>Strings and identifiers\<close>

definition is_digit :: "char \<Rightarrow> bool" where
  "is_digit c = (c \<in> set ''0123456789'')"

definition digit_value :: "char \<Rightarrow> nat" where
  "digit_value c = of_char c - 48"

definition decimal :: "string \<Rightarrow> nat" where
  "decimal s = foldl (\<lambda>n c. 10 * n + digit_value c) 0 s"

text \<open>
  Order ids are \<^verbatim>\<open>INT AUTO_INCREMENT\<close> keys, and every handler passes the id it
  received as a string to \<^verbatim>\<open>WHERE id = ?\<close>.  A string of decimal digits addresses
  the row with that number; any other string addresses no row here (the database's
  lenient reading of other strings as numbers is not modelled).
\<close>

definition sql_id :: "string \<Rightarrow> nat option" where
  "sql_id s = (if s \<noteq> [] \<and> list_all is_digit s then Some (decimal s) else None)"

definition is_space :: "char \<Rightarrow> bool" where
  "is_space c = (c \<in> set [CHR '' '', CHR 0x09, CHR 0x0A, CHR 0x0B, CHR 0x0C, CHR 0x0D])"

text \<open>\<^verbatim>\<open>String.prototype.trim\<close>, on ASCII white space.\<close>

definition js_trim :: "string \<Rightarrow> string" where
  "js_trim s = rev (dropWhile is_space (rev (dropWhile is_space s)))"

text \<open>
  \<^verbatim>\<open>s.replace(pat, rep)\<close> with a string pattern: the first occurrence of the
  pattern, wherever it is, is replaced.
\<close>

fun js_replace :: "string \<Rightarrow> string \<Rightarrow> string \<Rightarrow> string" where
  "js_replace pat rep [] = (if pat = [] then rep else [])"
| "js_replace pat rep (c # cs) =
     (if take (length pat) (c # cs) = pat then rep @ drop (length pat) (c # cs)
      else c # js_replace pat rep cs)"

subsection \<open>JavaScript numbers\<close>

text \<open>
  A JavaScript number is an IEEE 754 binary64 value: a finite double, which is a
  rational number \<open>m * 2 ^ e\<close> with \<open>\<bar>m\<bar> < 2 ^ 53\<close> and \<open>- 1074 \<le> e \<le> 971\<close>, an
  infinity, or \<^verbatim>\<open>NaN\<close>.  The sign of a zero is not kept: the handlers add, subtract,
  multiply and compare, and none of these tells the two zeros apart.
\<close>

datatype js_number = Finite rat | PlusInfinity | MinusInfinity | NaN

definition pow2 :: "int \<Rightarrow> rat" where
  "pow2 k = (if 0 \<le> k then 2 ^ nat k else 1 / 2 ^ nat (- k))"

text \<open>The exponent of the leading bit of a positive rational, \<open>\<lfloor>log\<^sub>2 x\<rfloor>\<close>.\<close>

definition ilog2 :: "rat \<Rightarrow> int" where
  "ilog2 x =
     (let (n, d) = quotient_of x; k = bitlen n - bitlen d
      in if pow2 k \<le> x then k else k - 1)"

text \<open>The nearest integer, a tie going to the even one.\<close>

definition round_half_even :: "rat \<Rightarrow> int" where
  "round_half_even x =
     (let f = \<lfloor>x\<rfloor>; r = x - of_int f
      in if r < 1 / 2 then f else if 1 / 2 < r then f + 1 else if even f then f else f + 1)"

text \<open>
  The double nearest to a rational number, a tie going to the even significand.  This
  is what reading a decimal numeral gives (a number in a JSON body, \<^verbatim>\<open>Number(s)\<close> and
  \<^verbatim>\<open>parseFloat(s)\<close> of a decimal string \<^verbatim>\<open>s\<close>, a numeric literal of the program) and
  how the exact result of an operation on two doubles is rounded.  The significand has
  53 bits, so its last bit has the exponent \<open>e\<close> below, which is not less than that of
  the subnormal numbers, \<open>- 1074\<close>; a result of magnitude \<open>2 ^ 1024\<close> or more, that is
  one whose leading bit has an exponent of 1024 or more, is an infinity.  On a rational
  that is a finite double the function is the identity.
\<close>

definition to_double :: "rat \<Rightarrow> js_number" where
  "to_double x =
     (if x = 0 then Finite 0
      else
        let e = max (ilog2 \<bar>x\<bar> - 52) (- 1074);
            y = of_int (round_half_even (x / pow2 e)) * pow2 e
        in if 0 < \<bar>y\<bar> \<and> 1024 \<le> ilog2 \<bar>y\<bar>
           then (if 0 < x then PlusInfinity else MinusInfinity)
           else Finite y)"

text \<open>The operators \<^verbatim>\<open>-x\<close>, \<^verbatim>\<open>x + y\<close>, \<^verbatim>\<open>x - y\<close>, \<^verbatim>\<open>x * y\<close> and \<^verbatim>\<open>Math.abs(x)\<close>.\<close>

fun js_neg :: "js_number \<Rightarrow> js_number" where
  "js_neg (Finite a) = Finite (- a)"
| "js_neg PlusInfinity = MinusInfinity"
| "js_neg MinusInfinity = PlusInfinity"
| "js_neg NaN = NaN"

fun js_add :: "js_number \<Rightarrow> js_number \<Rightarrow> js_number" where
  "js_add (Finite a) (Finite b) = to_double (a + b)"
| "js_add NaN y = NaN"
| "js_add x NaN = NaN"
| "js_add PlusInfinity MinusInfinity = NaN"
| "js_add MinusInfinity PlusInfinity = NaN"
| "js_add PlusInfinity y = PlusInfinity"
| "js_add x PlusInfinity = PlusInfinity"
| "js_add MinusInfinity y = MinusInfinity"
| "js_add x MinusInfinity = MinusInfinity"

definition js_sub :: "js_number \<Rightarrow> js_number \<Rightarrow> js_number" where
  "js_sub x y = js_add x (js_neg y)"

fun js_sign :: "js_number \<Rightarrow> int" where
  "js_sign (Finite a) = (if 0 < a then 1 else if a < 0 then - 1 else 0)"
| "js_sign PlusInfinity = 1"
| "js_sign MinusInfinity = - 1"
| "js_sign NaN = 0"

fun js_mul :: "js_number \<Rightarrow> js_number \<Rightarrow> js_number" where
  "js_mul (Finite a) (Finite b) = to_double (a * b)"
| "js_mul NaN y = NaN"
| "js_mul x NaN = NaN"
| "js_mul x y =
     (if js_sign x * js_sign y = 0 then NaN
      else if 0 < js_sign x * js_sign y then PlusInfinity
      else MinusInfinity)"

fun js_abs :: "js_number \<Rightarrow> js_number" where
  "js_abs (Finite a) = Finite \<bar>a\<bar>"
| "js_abs PlusInfinity = PlusInfinity"
| "js_abs MinusInfinity = PlusInfinity"
| "js_abs NaN = NaN"

text \<open>The comparisons \<^verbatim>\<open>x > y\<close> and \<^verbatim>\<open>x >= y\<close>, false when an operand is \<^verbatim>\<open>NaN\<close>.\<close>

fun js_gt :: "js_number \<Rightarrow> js_number \<Rightarrow> bool" where
  "js_gt (Finite a) (Finite b) = (b < a)"
| "js_gt NaN y = False"
| "js_gt x NaN = False"
| "js_gt x PlusInfinity = False"
| "js_gt MinusInfinity y = False"
| "js_gt PlusInfinity y = True"
| "js_gt x MinusInfinity = True"

fun js_ge :: "js_number \<Rightarrow> js_number \<Rightarrow> bool" where
  "js_ge (Finite a) (Finite b) = (b \<le> a)"
| "js_ge NaN y = False"
| "js_ge x NaN = False"
| "js_ge PlusInfinity y = True"
| "js_ge x MinusInfinity = True"
| "js_ge x PlusInfinity = False"
| "js_ge MinusInfinity y = False"

text \<open>\<^verbatim>\<open>Number.isFinite(x)\<close>.\<close>

fun is_finite :: "js_number \<Rightarrow> bool" where
  "is_finite (Finite a) = True"
| "is_finite x = False"

subsection \<open>Tables\<close>

record order =
  restaurant_uid :: string
  customer_uid :: string
  customer_name :: string
  phone_number :: string
  status :: string
  total_price :: rat
  delivery_address :: string
  payment_method :: string
  order_notes :: "string option"
  payment_status :: string
  payment_session_id :: "string option"
  payment_id :: "string option"
  rejection_reason :: "string option"
  auto_rejected :: bool

record restaurant_owner =
  is_online :: int

record customer =
  email :: "string option"

record menu_item =
  item_restaurant_uid :: string
  price :: rat
  is_available :: int
  is_deleted :: int

text \<open>
  The keys of the JavaScript \<^verbatim>\<open>Map\<close> \<^verbatim>\<open>orderTimers\<close>.  \<^verbatim>\<open>Map\<close> compares keys
  with SameValueZero, under which the string \<^verbatim>\<open>"5"\<close> and the number \<^verbatim>\<open>5\<close> are
  different keys and \<^verbatim>\<open>NaN\<close> equals itself.
\<close>

datatype timer_key = KStr string | KNum nat | KNaN

text \<open>
  \<^verbatim>\<open>Number.parseInt\<close> on a request parameter: a decimal numeral gives its value, and a
  string that is no decimal numeral is read as \<^verbatim>\<open>NaN\<close> here.  Either way the result
  is a number, never a string.
\<close>

definition parseInt :: "string \<Rightarrow> timer_key" where
  "parseInt s = (case sql_id s of Some n \<Rightarrow> KNum n | None \<Rightarrow> KNaN)"

text \<open>
  The server state: the tables the handlers use, the module-level map
  \<^verbatim>\<open>orderTimers\<close> (key to timer handle), and the timeouts that \<^verbatim>\<open>setTimeout\<close> has
  scheduled and that have neither fired nor been cleared (handle to the order id the
  callback will pass to \<^verbatim>\<open>autoRejectOrder\<close>).
\<close>

record server_state =
  orders :: "nat \<rightharpoonup> order"
  order_items :: "(nat \<times> nat \<times> int) list"
  next_order_id :: nat
  restaurant_owners :: "string \<rightharpoonup> restaurant_owner"
  restaurant_preferences :: "string \<rightharpoonup> int"
  customers :: "string \<rightharpoonup> customer"
  menu_items1 :: "nat \<rightharpoonup> menu_item"
  orderTimers :: "timer_key \<rightharpoonup> nat"
  timeouts :: "nat \<rightharpoonup> string"
  next_timer :: nat

text \<open>
  What a handler sends out: a Socket.IO event (the room and the event name), or a call
  of \<^verbatim>\<open>sendFCMNotification\<close> (the restaurant uid and the \<^verbatim>\<open>type\<close> field of the data).
\<close>

datatype event =
  SocketEmit string string
  | FCMNotification string string

text \<open>
  A reply: the HTTP status, the \<^verbatim>\<open>success\<close> flag, the \<^verbatim>\<open>message\<close> (or
  \<^verbatim>\<open>error\<close>) text and the further fields of the JSON body.
\<close>

datatype response = Response nat bool string "(string \<times> string) list"

type_synonym 'a handled = "'a \<times> server_state \<times> event list"

text \<open>\<^verbatim>\<open>SELECT * FROM orders WHERE id = ?\<close> and \<^verbatim>\<open>UPDATE orders SET ... WHERE id = ?\<close>.\<close>

definition select_order :: "server_state \<Rightarrow> string \<Rightarrow> order option" where
  "select_order st orderId = (case sql_id orderId of None \<Rightarrow> None | Some n \<Rightarrow> orders st n)"

definition update_order :: "server_state \<Rightarrow> string \<Rightarrow> (order \<Rightarrow> order) \<Rightarrow> server_state" where
  "update_order st orderId f =
     (case sql_id orderId of
        None \<Rightarrow> st
      | Some n \<Rightarrow>
          (case orders st n of
             None \<Rightarrow> st
           | Some row \<Rightarrow> st\<lparr>orders := (orders st)(n \<mapsto> f row)\<rparr>))"

subsection \<open>The auto-reject callback\<close>

definition autoRejectOrder :: "string \<Rightarrow> server_state \<Rightarrow> server_state \<times> event list" where
  "autoRejectOrder orderId st =
     (case select_order st orderId of
        None \<Rightarrow> (st, [])
      | Some row \<Rightarrow>
          if status row \<noteq> ''pending'' then (st, [])
          else
            let st1 = update_order st orderId
                  (\<lambda>r. r\<lparr>status := ''rejected'',
                         rejection_reason := Some ''Order was not accepted within the time limit'',
                         auto_rejected := True\<rparr>)
            in (st1\<lparr>orderTimers := (orderTimers st1)(KStr orderId := None)\<rparr>,
                [SocketEmit (''restaurant_'' @ restaurant_uid row) ''orderAutoRejected'',
                 SocketEmit (''customer_'' @ customer_uid row) ''orderStatusUpdated'']))"

text \<open>
  A scheduled timeout fires: it leaves the set of pending timeouts and runs its
  callback.  A handle that was cleared, or has fired already, does nothing.
\<close>

definition timer_fires :: "nat \<Rightarrow> server_state \<Rightarrow> server_state \<times> event list" where
  "timer_fires h st =
     (case timeouts st h of
        None \<Rightarrow> (st, [])
      | Some orderId \<Rightarrow> autoRejectOrder orderId (st\<lparr>timeouts := (timeouts st)(h := None)\<rparr>))"

subsection \<open>Accept and reject\<close>

text \<open>
  \<^verbatim>\<open>validateRestaurantUid\<close> throws unless the trimmed uid is non-empty and names a row
  of \<^verbatim>\<open>restaurant_owners\<close>; the handlers answer a thrown error with status 500.
\<close>

definition validateRestaurantUid :: "server_state \<Rightarrow> string \<Rightarrow> bool" where
  "validateRestaurantUid st restaurantUid =
     (js_trim restaurantUid \<noteq> [] \<and> restaurant_owners st (js_trim restaurantUid) \<noteq> None)"

text \<open>
  The block
  \<^verbatim>\<open>if (orderTimers.has(k)) { clearTimeout(orderTimers.get(k)); orderTimers.delete(k) }\<close>
  of accept and reject, which call it with \<^verbatim>\<open>k = Number.parseInt(orderId)\<close>.
\<close>

definition clear_order_timer :: "timer_key \<Rightarrow> server_state \<Rightarrow> server_state" where
  "clear_order_timer k st =
     (case orderTimers st k of
        None \<Rightarrow> st
      | Some h \<Rightarrow> st\<lparr>timeouts := (timeouts st)(h := None),
                     orderTimers := (orderTimers st)(k := None)\<rparr>)"

text \<open>
  \<^verbatim>\<open>PUT /api/orders/:id/accept\<close> and \<^verbatim>\<open>PUT /api/orders/:id/reject\<close>.  Both select the
  order with \<^verbatim>\<open>WHERE id = ? AND restaurant_uid = ? AND status = 'pending'\<close>.
\<close>

definition acceptOrder :: "string \<Rightarrow> string option \<Rightarrow> server_state \<Rightarrow> response handled" where
  "acceptOrder orderId query_uid st =
     (case map_option js_trim query_uid of
        None \<Rightarrow> (Response 400 False ''Restaurant UID is required'' [], st, [])
      | Some uid \<Rightarrow>
          if uid = [] then (Response 400 False ''Restaurant UID is required'' [], st, [])
          else if \<not> validateRestaurantUid st uid
          then (Response 500 False ''accepting order failed'' [], st, [])
          else
            (case select_order st orderId of
               None \<Rightarrow>
                 (Response 404 False ''Order not found, not yours, or already processed'' [], st, [])
             | Some row \<Rightarrow>
                 if restaurant_uid row = uid \<and> status row = ''pending''
                 then
                   let st1 = clear_order_timer (parseInt orderId) st;
                       st2 = update_order st1 orderId (\<lambda>r. r\<lparr>status := ''preparing''\<rparr>)
                   in (Response 200 True ''Order accepted successfully'' [], st2,
                       [SocketEmit (''restaurant_'' @ uid) ''orderAccepted'',
                        SocketEmit (''customer_'' @ customer_uid row) ''orderStatusUpdated''])
                 else (Response 404 False ''Order not found, not yours, or already processed'' [],
                       st, [])))"

definition rejectOrder ::
  "string \<Rightarrow> string option \<Rightarrow> string option \<Rightarrow> server_state \<Rightarrow> response handled" where
  "rejectOrder orderId query_uid reason st =
     (case map_option js_trim query_uid of
        None \<Rightarrow> (Response 400 False ''Restaurant UID is required'' [], st, [])
      | Some uid \<Rightarrow>
          if uid = [] then (Response 400 False ''Restaurant UID is required'' [], st, [])
          else
            (case reason of
               None \<Rightarrow> (Response 400 False ''Rejection reason is required'' [], st, [])
             | Some rejection_reason' \<Rightarrow>
                 if js_trim rejection_reason' = []
                 then (Response 400 False ''Rejection reason is required'' [], st, [])
                 else if \<not> validateRestaurantUid st uid
                 then (Response 500 False ''rejecting order failed'' [], st, [])
                 else
                   (case select_order st orderId of
                      None \<Rightarrow>
                        (Response 404 False ''Order not found, not yours, or already processed'' [],
                         st, [])
                    | Some row \<Rightarrow>
                        if restaurant_uid row = uid \<and> status row = ''pending''
                        then
                          let st1 = clear_order_timer (parseInt orderId) st;
                              st2 = update_order st1 orderId
                                (\<lambda>r. r\<lparr>status := ''rejected'',
                                       rejection_reason := Some (js_trim rejection_reason'),
                                       auto_rejected := False\<rparr>)
                          in (Response 200 True ''Order rejected successfully'' [], st2,
                              [SocketEmit (''restaurant_'' @ uid) ''orderRejected'',
                               SocketEmit (''customer_'' @ customer_uid row)
                                 ''orderStatusUpdated''])
                        else (Response 404 False
                                ''Order not found, not yours, or already processed'' [], st, []))))"

subsection \<open>The generic status update\<close>

definition allowed :: "string list" where
  "allowed = [''pending'', ''preparing'', ''ready'', ''on_the_way'', ''delivered'',
              ''cancelled'', ''rejected'']"

text \<open>
  \<^verbatim>\<open>PUT /api/orders/:id/status\<close>.  A missing \<^verbatim>\<open>status\<close> field is the empty string
  here: both are falsy and neither is in the set of allowed values.
\<close>

definition updateOrderStatus :: "string \<Rightarrow> string \<Rightarrow> server_state \<Rightarrow> response handled" where
  "updateOrderStatus orderId new_status st =
     (if new_status = [] \<or> new_status \<notin> set allowed
      then (Response 400 False ''Invalid or missing status'' [], st, [])
      else
        (case select_order st orderId of
           None \<Rightarrow> (Response 404 False ''Order not found'' [], st, [])
         | Some currentOrder \<Rightarrow>
             if status currentOrder = ''pending'' \<and>
                new_status \<noteq> ''preparing'' \<and> new_status \<noteq> ''rejected'' \<and>
                new_status \<noteq> ''cancelled''
             then (Response 400 False
                     ''Pending orders can only move to preparing, rejected, or cancelled. Use /accept or /reject endpoints.''
                     [], st, [])
             else if status currentOrder = ''pending'' \<and>
                     (new_status = ''preparing'' \<or> new_status = ''rejected'')
             then (Response 400 False ''Use /accept or /reject endpoints for pending orders'' [],
                   st, [])
             else
               let st1 = update_order st orderId (\<lambda>r. r\<lparr>status := new_status\<rparr>);
                   orderNotifications =
                     (case restaurant_preferences st1 (restaurant_uid currentOrder) of
                        None \<Rightarrow> 1
                      | Some n \<Rightarrow> n)
               in (Response 200 True ''Status updated'' [], st1,
                   [SocketEmit (''restaurant_'' @ restaurant_uid currentOrder) ''orderStatusUpdated'',
                    SocketEmit (''customer_'' @ customer_uid currentOrder) ''orderStatusUpdated'']
                   @ (if new_status = ''delivered'' \<and> orderNotifications \<noteq> 0
                      then [FCMNotification (restaurant_uid currentOrder) ''orderStatusUpdated'']
                      else []))))"

subsection \<open>Payment verification by the client\<close>

text \<open>
  One payment attempt of the gateway's list: its \<^verbatim>\<open>payment_status\<close> and the result of
  \<^verbatim>\<open>parseFloat(payment_amount)\<close>, where \<open>None\<close> is \<^verbatim>\<open>NaN\<close>.
\<close>

record payment_attempt =
  attempt_status :: string
  attempt_amount :: "rat option"

text \<open>
  \<^verbatim>\<open>Math.abs(paidAmount - orderAmount) > 0.02\<close>, on doubles.  The first argument is
  the amount of the attempt, a double already or a decimal number that \<^verbatim>\<open>parseFloat\<close>
  reads into one; the second is the \<^verbatim>\<open>total_price\<close> of the row, which
  \<^verbatim>\<open>parseFloat\<close> reads into a double.
\<close>

definition amount_mismatch :: "rat option \<Rightarrow> rat \<Rightarrow> bool" where
  "amount_mismatch paidAmount orderAmount =
     js_gt
       (js_abs (js_sub (case paidAmount of None \<Rightarrow> NaN | Some a \<Rightarrow> to_double a)
                  (to_double orderAmount)))
       (to_double 0.02)"

definition mark_order :: "string \<Rightarrow> string \<Rightarrow> string \<Rightarrow> server_state \<Rightarrow> server_state" where
  "mark_order orderId new_status new_payment_status st =
     update_order st orderId (\<lambda>r. r\<lparr>status := new_status, payment_status := new_payment_status\<rparr>)"

text \<open>
  \<^verbatim>\<open>POST /api/orders/:orderId/verify-payment\<close>.  The first argument is what the
  gateway answers to the request for the payment attempts of the order: \<open>None\<close> when
  the request fails, the list of attempts otherwise.
\<close>

definition verifyPayment ::
  "payment_attempt list option \<Rightarrow> string \<Rightarrow> server_state \<Rightarrow> response handled" where
  "verifyPayment gateway orderId st =
     (case select_order st orderId of
        None \<Rightarrow> (Response 404 False ''Order not found'' [], st, [])
      | Some row \<Rightarrow>
          if payment_status row = ''success''
          then (Response 200 True ''Payment already verified''
                  [(''order_status'', ''pending''), (''payment_status'', ''success'')], st, [])
          else if payment_status row = ''failed'' \<or> payment_status row = ''cancelled''
          then (Response 200 False ''Payment has already failed''
                  [(''order_status'', status row), (''payment_status'', payment_status row)],
                st, [])
          else
            (case gateway of
               None \<Rightarrow>
                 (Response 500 False ''Unable to verify payment with payment gateway'' [], st, [])
             | Some payments \<Rightarrow>
                 (case find (\<lambda>p. attempt_status p = ''SUCCESS'') payments of
                    None \<Rightarrow>
                      (Response 200 False
                         ''Payment verification failed - No successful payment found''
                         [(''order_status'', ''cancelled''), (''payment_status'', ''failed'')],
                       mark_order orderId ''cancelled'' ''failed'' st, [])
                  | Some successfulPayment \<Rightarrow>
                      if amount_mismatch (attempt_amount successfulPayment) (total_price row)
                      then (Response 400 False ''Payment amount mismatch''
                              [(''order_status'', ''cancelled''), (''payment_status'', ''failed'')],
                            mark_order orderId ''cancelled'' ''failed'' st, [])
                      else (Response 200 True ''Payment verified successfully''
                              [(''order_status'', ''pending''), (''payment_status'', ''success'')],
                            mark_order orderId ''pending'' ''success'' st,
                            [SocketEmit (''restaurant_'' @ restaurant_uid row) ''newOrder'',
                             FCMNotification (restaurant_uid row) ''newOrder'']))))"

subsection \<open>The gateway webhook\<close>

text \<open>
  The webhook body, with the shapes the handler looks into.  A field is \<open>None\<close> when
  the key is absent (or \<^verbatim>\<open>null\<close>); ids and statuses are JSON strings and amounts are
  JSON numbers, as the gateway sends them, so that \<^verbatim>\<open>toString\<close> and \<^verbatim>\<open>parseFloat\<close>
  leave them as they are.
\<close>

record order_entity =
  order_id :: "string option"
  order_status :: "string option"
  order_amount :: "rat option"

record payment_entity =
  entity_payment_status :: "string option"
  payment_amount :: "rat option"

record data_entity =
  data_order :: "order_entity option"
  data_payment :: "payment_entity option"

record payload =
  payload_data :: "data_entity option"
  payload_order :: "order_entity option"
  payload_payment :: "payment_entity option"
  payload_order_id :: "string option"
  payload_payment_status :: "string option"

text \<open>Truthiness of a string and of a number that may be undefined.\<close>

definition truthy_string :: "string option \<Rightarrow> bool" where
  "truthy_string v = (case v of None \<Rightarrow> False | Some s \<Rightarrow> s \<noteq> [])"

definition truthy_number :: "rat option \<Rightarrow> bool" where
  "truthy_number v = (case v of None \<Rightarrow> False | Some r \<Rightarrow> r \<noteq> 0)"

definition extract_orderId :: "payload \<Rightarrow> string option" where
  "extract_orderId p =
     (let a = Option.bind (Option.bind (payload_data p) data_order) order_id;
          b = Option.bind (payload_order p) order_id;
          c = payload_order_id p
      in if truthy_string a then map_option (js_replace ''order_'' []) a
         else if truthy_string b then map_option (js_replace ''order_'' []) b
         else if truthy_string c then map_option (js_replace ''order_'' []) c
         else None)"

definition extract_paymentStatus :: "payload \<Rightarrow> string option" where
  "extract_paymentStatus p =
     (let a = Option.bind (Option.bind (payload_data p) data_payment) entity_payment_status;
          b = Option.bind (payload_payment p) entity_payment_status;
          c = payload_payment_status p;
          d = Option.bind (Option.bind (payload_data p) data_order) order_status
      in if truthy_string a then a
         else if truthy_string b then b
         else if truthy_string c then c
         else if truthy_string d then d
         else None)"

definition extract_paymentAmount :: "payload \<Rightarrow> rat option" where
  "extract_paymentAmount p =
     (let a = Option.bind (Option.bind (payload_data p) data_payment) payment_amount;
          b = Option.bind (payload_payment p) payment_amount;
          c = Option.bind (Option.bind (payload_data p) data_order) order_amount
      in if truthy_number a then a
         else if truthy_number b then b
         else if truthy_number c then c
         else None)"

text \<open>
  What \<^verbatim>\<open>validatePaymentSecurity(order, paymentAmount, paymentStatus)\<close> is expected to
  return: the handler reads \<^verbatim>\<open>valid\<close> and \<^verbatim>\<open>alreadyProcessed\<close> of the result.
\<close>

record validation =
  valid :: bool
  alreadyProcessed :: bool

type_synonym validator = "order \<Rightarrow> rat \<Rightarrow> string \<Rightarrow> validation"

text \<open>
  The status mapping of the webhook.  Its first argument is the binding of the
  identifier \<^verbatim>\<open>validatePaymentSecurity\<close> in the module: \<open>None\<close> when the identifier
  is not bound, in which case the call throws a \<^verbatim>\<open>ReferenceError\<close>.  The result is
  the payment status, the order status and the flag \<^verbatim>\<open>shouldNotifyRestaurant\<close>, or
  the early acknowledgement, or the thrown error.
\<close>

datatype status_mapping =
  Mapped string string bool
  | Acknowledge
  | Threw

definition map_payment_status ::
  "validator option \<Rightarrow> order \<Rightarrow> string option \<Rightarrow> rat option \<Rightarrow> status_mapping" where
  "map_payment_status binding row paymentStatus paymentAmount =
     (case paymentStatus of
        None \<Rightarrow> Mapped ''pending'' ''payment_pending'' False
      | Some ps \<Rightarrow>
          if ps = ''SUCCESS'' \<or> ps = ''PAID''
          then
            (case paymentAmount of
               None \<Rightarrow> Mapped ''success'' ''pending'' True
             | Some amount \<Rightarrow>
                 if amount = 0 then Mapped ''success'' ''pending'' True
                 else
                   (case binding of
                      None \<Rightarrow> Threw
                    | Some validate \<Rightarrow>
                        let validation = validate row amount ps
                        in if \<not> valid validation
                           then (if alreadyProcessed validation then Acknowledge
                                 else Mapped ''failed'' ''cancelled'' False)
                           else Mapped ''success'' ''pending'' True))
          else if ps = ''FAILED'' then Mapped ''failed'' ''cancelled'' False
          else if ps = ''CANCELLED'' then Mapped ''cancelled'' ''cancelled'' False
          else Mapped ''pending'' ''payment_pending'' False)"

text \<open>
  The restaurant is online and has not switched order notifications off
  (\<^verbatim>\<open>COALESCE(rp.order_notifications, 1)\<close>).
\<close>

definition restaurant_reachable :: "server_state \<Rightarrow> string \<Rightarrow> bool" where
  "restaurant_reachable st uid =
     (case restaurant_owners st uid of
        None \<Rightarrow> False
      | Some ro \<Rightarrow>
          is_online ro = 1 \<and>
          (case restaurant_preferences st uid of None \<Rightarrow> True | Some n \<Rightarrow> n = 1))"

text \<open>
  The notification step of the webhook: start the 90 second timer under the key
  \<^verbatim>\<open>orderId\<close> (a string there) and notify the restaurant on its socket, or mark the
  order.  No push request goes out: the arguments of \<^verbatim>\<open>sendFCMNotification\<close> are
  evaluated first, and among them is \<^verbatim>\<open>orderData.total_price.toFixed(2)\<close>, where
  \<^verbatim>\<open>total_price\<close> is the string the database driver returns for a \<^verbatim>\<open>DECIMAL\<close> column
  (the pool of the database module does not ask for numbers), so the expression throws a
  \<^verbatim>\<open>TypeError\<close>, which the \<^verbatim>\<open>try\<close> around the call catches and logs.
\<close>

definition notify_restaurant :: "string \<Rightarrow> order \<Rightarrow> server_state \<Rightarrow> server_state \<times> event list" where
  "notify_restaurant orderId orderData st =
     (if restaurant_reachable st (restaurant_uid orderData)
      then
        (st\<lparr>timeouts := (timeouts st)(next_timer st \<mapsto> orderId),
            orderTimers := (orderTimers st)(KStr orderId \<mapsto> next_timer st),
            next_timer := Suc (next_timer st)\<rparr>,
         [SocketEmit (''restaurant_'' @ restaurant_uid orderData) ''newOrder''])
      else (update_order st orderId (\<lambda>r. r\<lparr>status := ''pending_restaurant_online''\<rparr>), []))"

text \<open>
  \<^verbatim>\<open>POST /api/cashfree/webhook\<close>.  The body is \<open>None\<close> when it is missing or has no
  keys.  A thrown error is caught by the handler, which answers it with status 200 and
  \<^verbatim>\<open>success: false\<close>.
\<close>

definition webhook_handler ::
  "validator option \<Rightarrow> payload option \<Rightarrow> server_state \<Rightarrow> response handled" where
  "webhook_handler binding body st =
     (case body of
        None \<Rightarrow> (Response 200 True ''Webhook endpoint is working'' [], st, [])
      | Some p \<Rightarrow>
          (case extract_orderId p of
             None \<Rightarrow> (Response 200 True ''No order ID found'' [], st, [])
           | Some orderId \<Rightarrow>
               if orderId = [] then (Response 200 True ''No order ID found'' [], st, [])
               else
                 (case select_order st orderId of
                    None \<Rightarrow> (Response 200 True ''Order not found'' [], st, [])
                  | Some row \<Rightarrow>
                      if payment_status row = ''success''
                      then (Response 200 True ''Payment already processed''
                              [(''orderId'', orderId)], st, [])
                      else
                        (case map_payment_status binding row (extract_paymentStatus p)
                                (extract_paymentAmount p) of
                           Threw \<Rightarrow>
                             (Response 200 False ''Webhook received but processing failed'' [],
                              st, [])
                         | Acknowledge \<Rightarrow>
                             (Response 200 True ''Payment already processed''
                                [(''orderId'', orderId)], st, [])
                         | Mapped dbPaymentStatus dbOrderStatus shouldNotifyRestaurant \<Rightarrow>
                             let st1 = mark_order orderId dbOrderStatus dbPaymentStatus st;
                                 reply = Response 200 True ''Webhook processed''
                                   [(''orderId'', orderId), (''paymentStatus'', dbPaymentStatus),
                                    (''restaurantNotified'',
                                     if shouldNotifyRestaurant then ''true'' else ''false'')]
                             in (case select_order st1 orderId of
                                   None \<Rightarrow> (reply, st1, [])
                                 | Some orderData \<Rightarrow>
                                     let (st2, sent) =
                                       (if shouldNotifyRestaurant \<and> dbPaymentStatus = ''success''
                                        then notify_restaurant orderId orderData st1
                                        else (st1, []))
                                     in (reply, st2,
                                         sent @ [SocketEmit (''customer_'' @ customer_uid orderData)
                                                   ''orderStatusUpdated'']))))))"

text \<open>
  \<^verbatim>\<open>server.js\<close> calls \<^verbatim>\<open>validatePaymentSecurity\<close> and neither declares nor imports
  it, and the second server file does not define it either: in the module as it is
  written the identifier is unbound.
\<close>

definition validatePaymentSecurity :: "validator option" where
  "validatePaymentSecurity = None"

definition webhookPaymentEvent :: "payload option \<Rightarrow> server_state \<Rightarrow> response handled" where
  "webhookPaymentEvent = webhook_handler validatePaymentSecurity"

subsection \<open>Order creation\<close>

text \<open>
  A coordinate of \<^verbatim>\<open>delivery_coordinates\<close>: \<^verbatim>\<open>null\<close>, a number, or a value of another
  type (which includes a missing field).
\<close>

datatype coordinate = CNull | CNumber rat | CNotNumber

record order_item =
  menu_item_id :: nat
  quantity :: int

text \<open>
  The request body.  A string field that is missing is the empty string (both are
  falsy); \<^verbatim>\<open>items\<close>, \<^verbatim>\<open>subtotal\<close> and \<^verbatim>\<open>total_amount\<close> are \<open>None\<close> when missing.
  A number is the decimal number of the JSON text, which the parser of the body reads
  into a double.
\<close>

record order_request =
  req_customer_uid :: string
  req_restaurant_uid :: string
  req_items :: "order_item list option"
  req_delivery_address :: string
  req_payment_method :: string
  req_notes :: string
  req_customer_name :: string
  req_phone_number :: string
  req_subtotal :: "rat option"
  req_total_amount :: "rat option"
  req_delivery_coordinates :: "(coordinate \<times> coordinate) option"

text \<open>
  The ways order creation fails.  The two mismatch errors carry the expected and the
  received amount, as the thrown messages do; together they are the price mismatch of
  the specification.  The last error is the one of a statement that the database
  refuses.
\<close>

datatype order_error =
  MissingRequiredFields
  | InvalidPhoneNumber
  | InvalidCoordinateFormat
  | InvalidLatitude
  | InvalidLongitude
  | RestaurantNotFound
  | RestaurantOffline
  | CustomerNotFound
  | MenuItemUnavailable nat
  | SubtotalMismatch js_number js_number
  | TotalMismatch js_number js_number
  | PaymentGatewayError
  | QueryFailed


text \<open>The pattern \<^verbatim>\<open>^\+?[0-9]{10,15}$\<close>.\<close>

definition phone_ok :: "string \<Rightarrow> bool" where
  "phone_ok s =
     (let d = (case s of [] \<Rightarrow> [] | c # cs \<Rightarrow> if c = CHR ''+'' then cs else s)
      in 10 \<le> length d \<and> length d \<le> 15 \<and> list_all is_digit d)"

text \<open>
  The range checks of the coordinates, \<^verbatim>\<open>latitude < -90 || latitude > 90\<close> and the same
  for the longitude with 180, where \<^verbatim>\<open>x < y\<close> is \<^verbatim>\<open>y > x\<close>.
\<close>

definition check_coordinates :: "(coordinate \<times> coordinate) option \<Rightarrow> order_error option" where
  "check_coordinates dc =
     (case dc of
        None \<Rightarrow> None
      | Some (latitude, longitude) \<Rightarrow>
          if latitude \<noteq> CNull \<and> longitude \<noteq> CNull
          then
            (case (latitude, longitude) of
               (CNumber la, CNumber lo) \<Rightarrow>
                 if js_gt (Finite (- 90)) (to_double la) \<or> js_gt (to_double la) (Finite 90)
                 then Some InvalidLatitude
                 else if js_gt (Finite (- 180)) (to_double lo) \<or> js_gt (to_double lo) (Finite 180)
                 then Some InvalidLongitude
                 else None
             | _ \<Rightarrow> Some InvalidCoordinateFormat)
          else None)"

text \<open>
  The loop that recomputes the subtotal from the menu: an item must be on the menu of
  the restaurant, available and not deleted.  The price is the \<^verbatim>\<open>DECIMAL\<close> of the
  row and the quantity the number of the request, both read by \<^verbatim>\<open>Number\<close>; the
  product and the sum are those of doubles.
\<close>

fun calculatedSubtotal ::
  "server_state \<Rightarrow> string \<Rightarrow> order_item list \<Rightarrow> js_number \<Rightarrow> order_error + js_number" where
  "calculatedSubtotal st uid [] acc = Inr acc"
| "calculatedSubtotal st uid (item # items) acc =
     (case menu_items1 st (menu_item_id item) of
        None \<Rightarrow> Inl (MenuItemUnavailable (menu_item_id item))
      | Some m \<Rightarrow>
          if item_restaurant_uid m = uid \<and> is_available m = 1 \<and> is_deleted m = 0
          then calculatedSubtotal st uid items
                 (js_add acc (js_mul (to_double (price m)) (to_double (of_int (quantity item)))))
          else Inl (MenuItemUnavailable (menu_item_id item)))"

text \<open>The fee policy of \<^verbatim>\<open>server.js\<close>.\<close>

definition expectedDeliveryFee :: "js_number \<Rightarrow> js_number" where
  "expectedDeliveryFee subtotal = (if js_ge subtotal (Finite 500) then Finite 0 else Finite 0)"

definition expectedPackingFee :: js_number where
  "expectedPackingFee = Finite 0"

definition expectedGst :: "js_number \<Rightarrow> js_number" where
  "expectedGst subtotal = js_mul subtotal (to_double 0.05)"

definition expectedPlatformFee :: "js_number \<Rightarrow> js_number" where
  "expectedPlatformFee subtotal = Finite 0"

definition expectedTotal :: "js_number \<Rightarrow> js_number" where
  "expectedTotal subtotal =
     js_add
       (js_add (js_add (js_add subtotal (expectedDeliveryFee subtotal)) expectedPackingFee)
          (expectedGst subtotal))
       (expectedPlatformFee subtotal)"

text \<open>The fee policy of the order creation in the second server file.\<close>

definition expectedDeliveryFee2 :: "js_number \<Rightarrow> js_number" where
  "expectedDeliveryFee2 subtotal = (if js_ge subtotal (Finite 500) then Finite 0 else Finite 20)"

definition expectedPackingFee2 :: js_number where
  "expectedPackingFee2 = Finite 5"

definition expectedGst2 :: "js_number \<Rightarrow> js_number" where
  "expectedGst2 subtotal = js_mul subtotal (to_double 0.05)"

definition expectedPlatformFee2 :: "js_number \<Rightarrow> js_number" where
  "expectedPlatformFee2 subtotal = (if js_ge subtotal (Finite 300) then Finite 0 else Finite 2)"

definition expectedTotal2 :: "js_number \<Rightarrow> js_number" where
  "expectedTotal2 subtotal =
     js_add
       (js_add (js_add (js_add subtotal (expectedDeliveryFee2 subtotal)) expectedPackingFee2)
          (expectedGst2 subtotal))
       (expectedPlatformFee2 subtotal)"

definition required_fields_missing :: "order_request \<Rightarrow> bool" where
  "required_fields_missing rq =
     (req_customer_uid rq = [] \<or> req_restaurant_uid rq = [] \<or> req_items rq = None \<or>
      req_delivery_address rq = [] \<or> req_payment_method rq = [] \<or>
      req_customer_name rq = [] \<or> req_phone_number rq = [] \<or> req_total_amount rq = None)"

text \<open>
  The two statements that insert the order row in \<^verbatim>\<open>payment_pending\<close> and its line
  items; the result is the \<^verbatim>\<open>insertId\<close> and the new state.  The coordinates, the
  location accuracy and the response deadline of the row are left out of the model.
  The total of the row is the declared total as the request wrote it.
\<close>

definition insert_order :: "order_request \<Rightarrow> order_item list \<Rightarrow> rat \<Rightarrow> server_state \<Rightarrow> nat \<times> server_state" where
  "insert_order rq items total_amount st =
     (let orderId = next_order_id st;
          row = \<lparr>restaurant_uid = req_restaurant_uid rq,
                 customer_uid = req_customer_uid rq,
                 customer_name = req_customer_name rq,
                 phone_number = req_phone_number rq,
                 status = ''payment_pending'',
                 total_price = total_amount,
                 delivery_address = req_delivery_address rq,
                 payment_method = req_payment_method rq,
                 order_notes = (if req_notes rq = [] then None else Some (req_notes rq)),
                 payment_status = ''pending'',
                 payment_session_id = None,
                 payment_id = None,
                 rejection_reason = None,
                 auto_rejected = False\<rparr>
      in (orderId,
          st\<lparr>orders := (orders st)(orderId \<mapsto> row),
              next_order_id := Suc orderId,
              order_items := order_items st
                @ map (\<lambda>item. (orderId, menu_item_id item, quantity item)) items\<rparr>))"

text \<open>
  The payment session: the gateway answers with a session id and its own order id
  (\<open>Some\<close>), or the request fails (\<open>None\<close>).  On failure the order stays, cancelled,
  and the transaction is committed.
\<close>

definition open_payment_session ::
  "(string \<times> string) option \<Rightarrow> nat \<Rightarrow> server_state \<Rightarrow> (order_error + nat \<times> string) \<times> server_state" where
  "open_payment_session gateway orderId st =
     (case gateway of
        Some (session_id, cf_order_id) \<Rightarrow>
          (Inr (orderId, session_id),
           st\<lparr>orders := (orders st)(orderId :=
                 map_option (\<lambda>r. r\<lparr>payment_session_id := Some session_id,
                                      payment_id := Some cf_order_id\<rparr>) (orders st orderId))\<rparr>)
      | None \<Rightarrow>
          (Inl PaymentGatewayError,
           st\<lparr>orders := (orders st)(orderId :=
                 map_option (\<lambda>r. r\<lparr>status := ''cancelled'', payment_status := ''failed''\<rparr>)
                   (orders st orderId))\<rparr>))"

text \<open>The declared subtotal, \<^verbatim>\<open>(subtotal || 0)\<close>.\<close>

definition declared_subtotal :: "order_request \<Rightarrow> js_number" where
  "declared_subtotal rq = (case req_subtotal rq of None \<Rightarrow> Finite 0 | Some s \<Rightarrow> to_double s)"

text \<open>
  The body of the transaction of \<^verbatim>\<open>POST /api/orders\<close> in \<^verbatim>\<open>server.js\<close>: \<open>Inl\<close> is a
  thrown error, caught by the handler, which rolls the transaction back.  The two
  price checks are \<^verbatim>\<open>Math.abs(calculatedSubtotal - (subtotal || 0)) > 0.01\<close> and
  \<^verbatim>\<open>Math.abs(expectedTotal - total_amount) > 0.02\<close> on doubles.  They let a total
  through that is not finite when the expected total is the same infinity (the
  difference is \<^verbatim>\<open>NaN\<close>); the driver writes such a number into the \<^verbatim>\<open>INSERT\<close> as
  \<^verbatim>\<open>Infinity\<close>, which is not a value of SQL, and the query throws.
\<close>

definition order_transaction ::
  "(string \<times> string) option \<Rightarrow> order_request \<Rightarrow> order_item list \<Rightarrow> rat \<Rightarrow> server_state
     \<Rightarrow> order_error + ((order_error + nat \<times> string) \<times> server_state)" where
  "order_transaction gateway rq items total_amount st =
     (case restaurant_owners st (req_restaurant_uid rq) of
        None \<Rightarrow> Inl RestaurantNotFound
      | Some restaurant \<Rightarrow>
          if is_online restaurant \<noteq> 1 then Inl RestaurantOffline
          else if customers st (req_customer_uid rq) = None then Inl CustomerNotFound
          else
            (case calculatedSubtotal st (req_restaurant_uid rq) items (Finite 0) of
               Inl e \<Rightarrow> Inl e
             | Inr subtotal \<Rightarrow>
                 if js_gt (js_abs (js_sub subtotal (declared_subtotal rq))) (to_double 0.01)
                 then Inl (SubtotalMismatch subtotal (declared_subtotal rq))
                 else if js_gt (js_abs (js_sub (expectedTotal subtotal) (to_double total_amount)))
                           (to_double 0.02)
                 then Inl (TotalMismatch (expectedTotal subtotal) (to_double total_amount))
                 else if \<not> is_finite (to_double total_amount) then Inl QueryFailed
                 else
                   let (orderId, st1) = insert_order rq items total_amount st
                   in Inr (open_payment_session gateway orderId st1)))"

definition createOrder ::
  "(string \<times> string) option \<Rightarrow> order_request \<Rightarrow> server_state
     \<Rightarrow> (order_error + nat \<times> string) \<times> server_state" where
  "createOrder gateway rq st =
     (if required_fields_missing rq then (Inl MissingRequiredFields, st)
      else if \<not> phone_ok (req_phone_number rq) then (Inl InvalidPhoneNumber, st)
      else
        (case check_coordinates (req_delivery_coordinates rq) of
           Some e \<Rightarrow> (Inl e, st)
         | None \<Rightarrow>
             (case (req_items rq, req_total_amount rq) of
                (Some items, Some total_amount) \<Rightarrow>
                  (case order_transaction gateway rq items total_amount st of
                     Inl e \<Rightarrow> (Inl e, st)
                   | Inr committed \<Rightarrow> committed)
              | _ \<Rightarrow> (Inl MissingRequiredFields, st))))"

text \<open>
  \<^verbatim>\<open>POST /api/orders\<close> of the second server file: no coordinates, no check that the
  restaurant is online, and its own fee policy.
\<close>

definition order_transaction2 ::
  "(string \<times> string) option \<Rightarrow> order_request \<Rightarrow> order_item list \<Rightarrow> rat \<Rightarrow> server_state
     \<Rightarrow> order_error + ((order_error + nat \<times> string) \<times> server_state)" where
  "order_transaction2 gateway rq items total_amount st =
     (if restaurant_owners st (req_restaurant_uid rq) = None then Inl RestaurantNotFound
      else if customers st (req_customer_uid rq) = None then Inl CustomerNotFound
      else
        (case calculatedSubtotal st (req_restaurant_uid rq) items (Finite 0) of
           Inl e \<Rightarrow> Inl e
         | Inr subtotal \<Rightarrow>
             if js_gt (js_abs (js_sub subtotal (declared_subtotal rq))) (to_double 0.01)
             then Inl (SubtotalMismatch subtotal (declared_subtotal rq))
             else if js_gt (js_abs (js_sub (expectedTotal2 subtotal) (to_double total_amount)))
                       (to_double 0.02)
             then Inl (TotalMismatch (expectedTotal2 subtotal) (to_double total_amount))
             else if \<not> is_finite (to_double total_amount) then Inl QueryFailed
             else
               let (orderId, st1) = insert_order rq items total_amount st
               in Inr (open_payment_session gateway orderId st1)))"

definition createOrder2 ::
  "(string \<times> string) option \<Rightarrow> order_request \<Rightarrow> server_state
     \<Rightarrow> (order_error + nat \<times> string) \<times> server_state" where
  "createOrder2 gateway rq st =
     (if required_fields_missing rq then (Inl MissingRequiredFields, st)
      else if \<not> phone_ok (req_phone_number rq) then (Inl InvalidPhoneNumber, st)
      else
        (case (req_items rq, req_total_amount rq) of
           (Some items, Some total_amount) \<Rightarrow>
             (case order_transaction2 gateway rq items total_amount st of
                Inl e \<Rightarrow> (Inl e, st)
              | Inr committed \<Rightarrow> committed)
         | _ \<Rightarrow> (Inl MissingRequiredFields, st)))"

subsection \<open>Sequences of confirmation calls\<close>

text \<open>
  The two confirmation paths as calls, and a sequence of such calls run one after the
  other: the replies, the final state and everything that was sent.
\<close>

datatype confirmation =
  VerifyPayment "payment_attempt list option" string
  | WebhookEvent payload

fun confirm :: "confirmation \<Rightarrow> server_state \<Rightarrow> response handled" where
  "confirm (VerifyPayment gateway orderId) st = verifyPayment gateway orderId st"
| "confirm (WebhookEvent p) st = webhookPaymentEvent (Some p) st"

fun confirmations ::
  "confirmation list \<Rightarrow> server_state \<Rightarrow> response list \<times> server_state \<times> event list" where
  "confirmations [] st = ([], st, [])"
| "confirmations (c # cs) st =
     (case confirm c st of
        (reply, st1, sent) \<Rightarrow>
          (case confirmations cs st1 of
             (replies, st2, sent') \<Rightarrow> (reply # replies, st2, sent @ sent')))"

text \<open>The row of \<^verbatim>\<open>orders\<close> a confirmation call addresses.\<close>

definition call_order :: "confirmation \<Rightarrow> nat option" where
  "call_order c =
     (case c of
        VerifyPayment _ orderId \<Rightarrow> sql_id orderId
      | WebhookEvent p \<Rightarrow> Option.bind (extract_orderId p) sql_id)"

definition already_processed :: "response \<Rightarrow> bool" where
  "already_processed r =
     (case r of
        Response code ok msg _ \<Rightarrow>
          code = 200 \<and> ok \<and>
          (msg = ''Payment already verified'' \<or> msg = ''Payment already processed''))"

subsection \<open>Valid submissions\<close>

text \<open>
  An order submission that passes every check of \<^verbatim>\<open>POST /api/orders\<close> before the
  prices are compared: the required fields, the phone number and the coordinates are
  well formed, the restaurant exists and is online, the customer exists, and every line
  item is on the restaurant's menu, so that the subtotal can be recomputed.
\<close>

definition valid_submission ::
  "server_state \<Rightarrow> order_request \<Rightarrow> order_item list \<Rightarrow> rat \<Rightarrow> js_number \<Rightarrow> bool" where
  "valid_submission st rq items total_amount subtotal =
     (\<not> required_fields_missing rq \<and> phone_ok (req_phone_number rq) \<and>
      check_coordinates (req_delivery_coordinates rq) = None \<and>
      req_items rq = Some items \<and> req_total_amount rq = Some total_amount \<and>
      (case restaurant_owners st (req_restaurant_uid rq) of
         None \<Rightarrow> False
       | Some restaurant \<Rightarrow> is_online restaurant = 1) \<and>
      customers st (req_customer_uid rq) \<noteq> None \<and>
      calculatedSubtotal st (req_restaurant_uid rq) items (Finite 0) = Inr subtotal)"

subsection \<open>Example data\<close>

text \<open>
  One restaurant \<^verbatim>\<open>r1\<close>, online, with one dish at 240 rupees; one customer; order 1
  of two dishes, 504 rupees in total, created and waiting for its payment.
\<close>

definition sample_order :: order where
  "sample_order =
     \<lparr>restaurant_uid = ''r1'', customer_uid = ''c1'', customer_name = ''Asha'',
      phone_number = ''9876543210'', status = ''payment_pending'', total_price = 504,
      delivery_address = ''12 Park Street'', payment_method = ''online'', order_notes = None,
      payment_status = ''pending'', payment_session_id = Some ''session_1'',
      payment_id = Some ''cf_1'', rejection_reason = None, auto_rejected = False\<rparr>"

definition sample_state :: server_state where
  "sample_state =
     \<lparr>orders = [1 \<mapsto> sample_order], order_items = [(1, 7, 2)], next_order_id = 2,
      restaurant_owners = [''r1'' \<mapsto> \<lparr>is_online = 1\<rparr>],
      restaurant_preferences = Map.empty,
      customers = [''c1'' \<mapsto> \<lparr>email = None\<rparr>],
      menu_items1 = [7 \<mapsto> \<lparr>item_restaurant_uid = ''r1'', price = 240, is_available = 1,
                             is_deleted = 0\<rparr>],
      orderTimers = Map.empty, timeouts = Map.empty, next_timer = 0\<rparr>"

text \<open>The same state with order 1 in another status and payment status.\<close>

definition order_in :: "string \<Rightarrow> string \<Rightarrow> server_state" where
  "order_in s ps =
     sample_state\<lparr>orders := [1 \<mapsto> sample_order\<lparr>status := s, payment_status := ps\<rparr>]\<rparr>"

text \<open>The same state with the restaurant offline.\<close>

definition restaurant_offline :: "server_state \<Rightarrow> server_state" where
  "restaurant_offline st = st\<lparr>restaurant_owners := [''r1'' \<mapsto> \<lparr>is_online = 0\<rparr>]\<rparr>"

text \<open>
  The state after the webhook has confirmed the payment of order 1 and notified the
  restaurant: timer 0 is scheduled and stored under the string key \<^verbatim>\<open>"1"\<close>.
\<close>

definition notified_state :: server_state where
  "notified_state =
     (order_in ''pending'' ''success'')
       \<lparr>orderTimers := [KStr ''1'' \<mapsto> 0], timeouts := [0 \<mapsto> ''1''], next_timer := 1\<rparr>"

text \<open>A webhook body in the gateway's shape \<^verbatim>\<open>{data: {order: {...}, payment: {...}}}\<close>.\<close>

definition sample_payload :: "string \<Rightarrow> string \<Rightarrow> rat option \<Rightarrow> payload" where
  "sample_payload oid ps amount =
     \<lparr>payload_data =
        Some \<lparr>data_order = Some \<lparr>order_id = Some oid, order_status = None, order_amount = None\<rparr>,
              data_payment = Some \<lparr>entity_payment_status = Some ps, payment_amount = amount\<rparr>\<rparr>,
      payload_order = None, payload_payment = None, payload_order_id = None,
      payload_payment_status = None\<rparr>"

text \<open>An order of two dishes (subtotal 480 rupees) that declares the given total.\<close>

definition sample_request :: "rat \<Rightarrow> order_request" where
  "sample_request total_amount =
     \<lparr>req_customer_uid = ''c1'', req_restaurant_uid = ''r1'',
      req_items = Some [\<lparr>menu_item_id = 7, quantity = 2\<rparr>],
      req_delivery_address = ''12 Park Street'', req_payment_method = ''online'',
      req_notes = [], req_customer_name = ''Asha'', req_phone_number = ''9876543210'',
      req_subtotal = Some 480, req_total_amount = Some total_amount,
      req_delivery_coordinates = None\<rparr>"


section \<open>Properties\<close>

subsection \<open>Auxiliary facts\<close>

lemma sql_id_1: "sql_id ''1'' = Some 1"
  by (simp add: sql_id_def is_digit_def decimal_def digit_value_def)

lemma sql_id_Nil: "sql_id [] = None"
  by (simp add: sql_id_def)

lemma select_update_order:
  "select_order st orderId = Some row \<Longrightarrow>
   select_order (update_order st orderId f) orderId = Some (f row)"
  by (auto simp: select_order_def update_order_def split: option.splits)

lemma select_order_cong:
  "orders st' = orders st \<Longrightarrow> select_order st' orderId = select_order st orderId"
  by (simp add: select_order_def split: option.splits)

lemmas sample_defs =
  sample_state_def sample_order_def sample_payload_def order_in_def restaurant_offline_def
  notified_state_def

lemmas extract_defs =
  extract_orderId_def extract_paymentStatus_def extract_paymentAmount_def truthy_string_def
  truthy_number_def

lemmas webhook_defs =
  webhookPaymentEvent_def webhook_handler_def validatePaymentSecurity_def map_payment_status_def
  select_order_def mark_order_def update_order_def notify_restaurant_def
  restaurant_reachable_def

lemma sample_valid:
  "valid_submission sample_state (sample_request t) [\<lparr>menu_item_id = 7, quantity = 2\<rparr>] t
     (Finite 480)"
  by code_simp


text \<open>
  Doubles at work: the tolerances and the GST rate are not the decimal numbers of the
  program text, and a sum is rounded (\<^verbatim>\<open>0.1 + 0.2\<close> is \<^verbatim>\<open>0.30000000000000004\<close>).
\<close>

lemma to_double_examples:
  "to_double 0.01 = Finite (5764607523034235 / 2 ^ 59)"
  "to_double 0.02 = Finite (5764607523034235 / 2 ^ 58)"
  "to_double 0.05 = Finite (3602879701896397 / 2 ^ 56)"
  "to_double 504 = Finite 504"
  "js_add (to_double 0.1) (to_double 0.2) = Finite (5404319552844596 / 2 ^ 54)"
  "to_double 9007199254740993 = Finite 9007199254740992"
  by code_simp+

text \<open>
  What \<^verbatim>\<open>createOrder\<close> does with a valid submission: the two price checks, the
  statement that inserts the row, and the payment session.
\<close>

lemma createOrder_valid:
  assumes "valid_submission st rq items total_amount subtotal"
  shows "createOrder gateway rq st =
     (if js_gt (js_abs (js_sub subtotal (declared_subtotal rq))) (to_double 0.01)
      then (Inl (SubtotalMismatch subtotal (declared_subtotal rq)), st)
      else if js_gt (js_abs (js_sub (expectedTotal subtotal) (to_double total_amount)))
                (to_double 0.02)
      then (Inl (TotalMismatch (expectedTotal subtotal) (to_double total_amount)), st)
      else if \<not> is_finite (to_double total_amount) then (Inl QueryFailed, st)
      else
        (case insert_order rq items total_amount st of
           (orderId, st1) \<Rightarrow> open_payment_session gateway orderId st1))"
  using assms
  by (auto simp: valid_submission_def createOrder_def order_transaction_def
      split: option.splits prod.splits)

lemma createOrder2_valid:
  assumes "valid_submission st rq items total_amount subtotal"
  shows "createOrder2 gateway rq st =
     (if js_gt (js_abs (js_sub subtotal (declared_subtotal rq))) (to_double 0.01)
      then (Inl (SubtotalMismatch subtotal (declared_subtotal rq)), st)
      else if js_gt (js_abs (js_sub (expectedTotal2 subtotal) (to_double total_amount)))
                (to_double 0.02)
      then (Inl (TotalMismatch (expectedTotal2 subtotal) (to_double total_amount)), st)
      else if \<not> is_finite (to_double total_amount) then (Inl QueryFailed, st)
      else
        (case insert_order rq items total_amount st of
           (orderId, st1) \<Rightarrow> open_payment_session gateway orderId st1))"
  using assms
  by (auto simp: valid_submission_def createOrder2_def order_transaction2_def
      split: option.splits prod.splits)

lemma verify_short_circuit:
  "select_order st orderId = Some row \<Longrightarrow> payment_status row = ''success'' \<Longrightarrow>
   verifyPayment gateway orderId st =
     (Response 200 True ''Payment already verified''
        [(''order_status'', ''pending''), (''payment_status'', ''success'')], st, [])"
  by (simp add: verifyPayment_def)

lemma webhook_short_circuit:
  "extract_orderId p = Some orderId \<Longrightarrow> select_order st orderId = Some row \<Longrightarrow>
   payment_status row = ''success'' \<Longrightarrow>
   webhook_handler binding (Some p) st =
     (Response 200 True ''Payment already processed'' [(''orderId'', orderId)], st, [])"
  by (auto simp: webhook_handler_def select_order_def sql_id_Nil)

lemma confirm_short_circuit:
  assumes "orders st n = Some row" and "payment_status row = ''success''"
    and "call_order c = Some n"
  shows "\<exists>reply. confirm c st = (reply, st, []) \<and> already_processed reply"
proof (cases c)
  case (VerifyPayment gateway orderId)
  with assms have "select_order st orderId = Some row"
    by (simp add: call_order_def select_order_def)
  from verify_short_circuit [OF this assms(2)] VerifyPayment show ?thesis
    by (simp add: already_processed_def)
next
  case (WebhookEvent p)
  with assms obtain orderId
    where p: "extract_orderId p = Some orderId" and "sql_id orderId = Some n"
    by (auto simp: call_order_def Option.bind_eq_Some_conv)
  with assms have "select_order st orderId = Some row"
    by (simp add: select_order_def)
  from webhook_short_circuit [OF p this assms(2)] WebhookEvent show ?thesis
    by (simp add: already_processed_def webhookPaymentEvent_def)
qed

lemma autoRejectOrder_idle:
  "\<forall>r. select_order st orderId = Some r \<longrightarrow> status r \<noteq> ''pending'' \<Longrightarrow>
   autoRejectOrder orderId st = (st, [])"
  by (auto simp: autoRejectOrder_def split: option.splits)

lemma acceptOrder_accepted:
  assumes "acceptOrder acceptedId query_uid st = (Response 200 True msg extra, accepted, sent)"
  shows "\<exists>row. select_order st acceptedId = Some row \<and>
           accepted = update_order (clear_order_timer (parseInt acceptedId) st) acceptedId
                        (\<lambda>r. r\<lparr>status := ''preparing''\<rparr>)"
proof (cases "map_option js_trim query_uid")
  case None
  from assms show ?thesis
    by (simp add: acceptOrder_def None)
next
  case (Some uid)
  note uid = this
  show ?thesis
  proof (cases "uid = []")
    case True
    from assms show ?thesis
      by (simp add: acceptOrder_def uid True)
  next
    case False
    note nonempty = this
    show ?thesis
    proof (cases "validateRestaurantUid st uid")
      case False
      from assms show ?thesis
        by (simp add: acceptOrder_def uid nonempty False)
    next
      case True
      note known = this
      show ?thesis
      proof (cases "select_order st acceptedId")
        case None
        from assms show ?thesis
          by (simp add: acceptOrder_def uid nonempty known None)
      next
        case (Some row)
        show ?thesis
        proof (cases "restaurant_uid row = uid \<and> status row = ''pending''")
          case True
          from assms show ?thesis
            by (simp add: acceptOrder_def uid nonempty known Some True Let_def)
        next
          case False
          from assms show ?thesis
            by (simp add: acceptOrder_def uid nonempty known Some False)
        qed
      qed
    qed
  qed
qed

lemma acceptOrder_not_pending:
  assumes "acceptOrder acceptedId query_uid st = (Response 200 True msg extra, accepted, sent)"
    and "sql_id orderId = sql_id acceptedId"
  shows "\<forall>r. select_order accepted orderId = Some r \<longrightarrow> status r \<noteq> ''pending''"
proof -
  let ?st1 = "clear_order_timer (parseInt acceptedId) st"
  from acceptOrder_accepted [OF assms(1)] obtain row
    where row: "select_order st acceptedId = Some row"
      and acc: "accepted = update_order ?st1 acceptedId (\<lambda>r. r\<lparr>status := ''preparing''\<rparr>)"
    by blast
  have "orders ?st1 = orders st"
    by (simp add: clear_order_timer_def split: option.splits)
  from select_order_cong [OF this, of acceptedId] row
  have "select_order ?st1 acceptedId = Some row"
    by simp
  from select_update_order [OF this] acc
  have "select_order accepted acceptedId = Some (row\<lparr>status := ''preparing''\<rparr>)"
    by simp
  moreover from assms(2) have "select_order accepted orderId = select_order accepted acceptedId"
    by (simp add: select_order_def)
  ultimately show ?thesis
    by simp
qed

text \<open>
  The timer map has only string keys: the webhook is the only handler that stores a key,
  and the other handlers only remove keys.
\<close>

lemma orderTimers_update_order: "orderTimers (update_order st orderId f) = orderTimers st"
  by (simp add: update_order_def split: option.splits)

lemma notify_restaurant_string_keys:
  assumes "\<forall>k. orderTimers st k \<noteq> None \<longrightarrow> (\<exists>s. k = KStr s)"
  shows "\<forall>k. orderTimers (fst (notify_restaurant orderId orderData st)) k \<noteq> None
            \<longrightarrow> (\<exists>s. k = KStr s)"
  using assms by (simp add: notify_restaurant_def orderTimers_update_order)

lemma webhook_string_keys:
  assumes "\<forall>k. orderTimers st k \<noteq> None \<longrightarrow> (\<exists>s. k = KStr s)"
  shows "\<forall>k. orderTimers (fst (snd (webhook_handler binding body st))) k \<noteq> None
            \<longrightarrow> (\<exists>s. k = KStr s)"
proof -
  have m: "\<forall>k. orderTimers (mark_order orderId a b st) k \<noteq> None \<longrightarrow> (\<exists>s. k = KStr s)"
    for orderId a b
    using assms by (simp add: mark_order_def orderTimers_update_order)
  show ?thesis
    using assms m notify_restaurant_string_keys [OF m]
    by (simp add: webhook_handler_def Let_def split_beta
        split: option.splits status_mapping.splits)
qed

lemma autoRejectOrder_string_keys:
  assumes "\<forall>k. orderTimers st k \<noteq> None \<longrightarrow> (\<exists>s. k = KStr s)"
  shows "\<forall>k. orderTimers (fst (autoRejectOrder orderId st)) k \<noteq> None \<longrightarrow> (\<exists>s. k = KStr s)"
  using assms
  by (simp add: autoRejectOrder_def Let_def orderTimers_update_order split: option.splits)

text \<open>
  What the webhook does with a validator that is bound and refuses the payment: the
  order is cancelled with payment status \<^verbatim>\<open>failed\<close> and only the customer is told.
\<close>

lemma webhook_refuses_invalid_payment:
  assumes "extract_orderId p = Some orderId" and "select_order st orderId = Some row"
    and "payment_status row \<noteq> ''success''"
    and "extract_paymentStatus p = Some ps" and "ps = ''SUCCESS'' \<or> ps = ''PAID''"
    and "extract_paymentAmount p = Some amount"
    and "validate row amount ps = \<lparr>valid = False, alreadyProcessed = False\<rparr>"
  shows "webhook_handler (Some validate) (Some p) st
           = (Response 200 True ''Webhook processed''
                [(''orderId'', orderId), (''paymentStatus'', ''failed''),
                 (''restaurantNotified'', ''false'')],
              mark_order orderId ''cancelled'' ''failed'' st,
              [SocketEmit (''customer_'' @ customer_uid row) ''orderStatusUpdated''])"
proof -
  from assms(2) have nonempty: "orderId \<noteq> []"
    by (auto simp: select_order_def sql_id_Nil)
  from assms(6) have "amount \<noteq> 0"
    by (auto simp: extract_paymentAmount_def truthy_number_def Let_def
        split: if_splits option.splits)
  with assms(4-7) have mapped:
    "map_payment_status (Some validate) row (extract_paymentStatus p) (extract_paymentAmount p)
       = Mapped ''failed'' ''cancelled'' False"
    by (auto simp: map_payment_status_def)
  have written: "select_order (mark_order orderId ''cancelled'' ''failed'' st) orderId
           = Some (row\<lparr>status := ''cancelled'', payment_status := ''failed''\<rparr>)"
    using select_update_order [OF assms(2)] by (simp add: mark_order_def)
  from assms(1,2,3) nonempty show ?thesis
    by (simp add: webhook_handler_def mapped written)
qed

text \<open>
  The notification step of the webhook looks at the restaurant first: a restaurant that
  is online with notifications enabled gets the timer and the notification; for any
  other, the order is marked, no timer is started and nothing is sent.
\<close>

lemma notify_restaurant_policy:
  assumes "select_order st orderId = Some row"
  shows "(restaurant_reachable st (restaurant_uid orderData) \<longrightarrow>
            notify_restaurant orderId orderData st
              = (st\<lparr>timeouts := (timeouts st)(next_timer st \<mapsto> orderId),
                    orderTimers := (orderTimers st)(KStr orderId \<mapsto> next_timer st),
                    next_timer := Suc (next_timer st)\<rparr>,
                 [SocketEmit (''restaurant_'' @ restaurant_uid orderData) ''newOrder'']))
       \<and> (\<not> restaurant_reachable st (restaurant_uid orderData) \<longrightarrow>
            snd (notify_restaurant orderId orderData st) = [] \<and>
            select_order (fst (notify_restaurant orderId orderData st)) orderId
              = Some (row\<lparr>status := ''pending_restaurant_online''\<rparr>) \<and>
            orderTimers (fst (notify_restaurant orderId orderData st)) = orderTimers st \<and>
            timeouts (fst (notify_restaurant orderId orderData st)) = timeouts st)"
  using select_update_order [OF assms, of "\<lambda>r. r\<lparr>status := ''pending_restaurant_online''\<rparr>"]
  by (simp add: notify_restaurant_def orderTimers_update_order)
    (simp add: update_order_def split: option.splits)

subsection \<open>C1: a confirmed payment is confirmed once\<close>

text \<open>
  Claim C1.  Once the payment status of an order is \<^verbatim>\<open>success\<close>, every further
  \<^verbatim>\<open>verifyPayment\<close> or \<^verbatim>\<open>webhookPaymentEvent\<close> call for that order, in any number and
  any order, whatever the gateway answers and whatever the webhook body reports, leaves
  the whole server state as it is (so the order row is not written and its payment
  status stays \<^verbatim>\<open>success\<close>), sends nothing (so no restaurant notification), and is
  answered with status 200, \<^verbatim>\<open>success: true\<close> and the text "Payment already verified"
  or "Payment already processed".
\<close>

theorem success_is_idempotent:
  assumes "orders st n = Some row" and "payment_status row = ''success''"
    and "\<forall>c \<in> set calls. call_order c = Some n"
  shows "\<exists>replies. confirmations calls st = (replies, st, []) \<and>
           length replies = length calls \<and> list_all already_processed replies"
  using assms(3)
proof (induction calls)
  case Nil
  then show ?case by simp
next
  case (Cons c calls)
  from Cons.prems have "call_order c = Some n" by simp
  from confirm_short_circuit [OF assms(1,2) this]
  obtain reply where r: "confirm c st = (reply, st, [])" "already_processed reply"
    by blast
  from Cons obtain replies where
    "confirmations calls st = (replies, st, [])" "length replies = length calls"
    "list_all already_processed replies"
    by auto
  with r show ?case by simp
qed

theorem success_is_idempotent_witness:
  "\<exists>replies.
     confirmations
       [VerifyPayment None ''1'', WebhookEvent (sample_payload ''order_1'' ''SUCCESS'' (Some 504)),
        VerifyPayment (Some []) ''1'']
       (order_in ''pending'' ''success'')
     = (replies, order_in ''pending'' ''success'', []) \<and>
     length replies = 3 \<and> list_all already_processed replies"
proof -
  let ?row = "sample_order\<lparr>status := ''pending'', payment_status := ''success''\<rparr>"
  let ?calls = "[VerifyPayment None ''1'',
                 WebhookEvent (sample_payload ''order_1'' ''SUCCESS'' (Some 504)),
                 VerifyPayment (Some []) ''1'']"
  have h1: "orders (order_in ''pending'' ''success'') 1 = Some ?row"
    by (simp add: sample_defs)
  have h2: "payment_status ?row = ''success''"
    by simp
  have h3: "\<forall>c \<in> set ?calls. call_order c = Some 1"
    by (simp add: call_order_def sql_id_1 sample_defs extract_defs)
  have h4: "length ?calls = 3"
    by simp
  from success_is_idempotent [OF h1 h2 h3] show ?thesis
    by (simp only: h4)
qed

subsection \<open>C2: a webhook that reports a wrong amount\<close>

text \<open>
  Claim C2 says that a webhook reporting \<^verbatim>\<open>SUCCESS\<close> with an amount that differs from
  the order total by more than 0.02 leaves the order cancelled with payment status
  \<^verbatim>\<open>failed\<close>.  The webhook of \<^verbatim>\<open>server.js\<close> hands the comparison to
  \<^verbatim>\<open>validatePaymentSecurity\<close>, which the module does not define.  So for every order
  that is not yet paid and every body that reports \<^verbatim>\<open>SUCCESS\<close> or \<^verbatim>\<open>PAID\<close> with an
  amount, whether the amount matches the total or not, the call throws, the handler's
  \<^verbatim>\<open>catch\<close> answers with \<^verbatim>\<open>success: false\<close>, the state is the one before the call
  (the order is not cancelled) and nothing is sent.
\<close>

theorem webhook_amount_never_compared:
  assumes "extract_orderId p = Some orderId" and "select_order st orderId = Some row"
    and "payment_status row \<noteq> ''success''"
    and "extract_paymentStatus p = Some ''SUCCESS'' \<or> extract_paymentStatus p = Some ''PAID''"
    and "extract_paymentAmount p = Some amount"
  shows "webhookPaymentEvent (Some p) st
           = (Response 200 False ''Webhook received but processing failed'' [], st, [])"
proof -
  from assms(2) have nonempty: "orderId \<noteq> []"
    by (auto simp: select_order_def sql_id_Nil)
  from assms(5) have "amount \<noteq> 0"
    by (auto simp: extract_paymentAmount_def truthy_number_def Let_def
        split: if_splits option.splits)
  with assms(4,5) have
    "map_payment_status None row (extract_paymentStatus p) (extract_paymentAmount p) = Threw"
    by (auto simp: map_payment_status_def)
  with assms(1,2,3) nonempty show ?thesis
    by (simp add: webhookPaymentEvent_def validatePaymentSecurity_def webhook_handler_def)
qed

theorem webhook_amount_never_compared_witness:
  "amount_mismatch (Some 100) 504
   \<and> map_option total_price (select_order sample_state ''1'') = Some 504
   \<and> webhookPaymentEvent (Some (sample_payload ''order_1'' ''SUCCESS'' (Some 100))) sample_state
       = (Response 200 False ''Webhook received but processing failed'' [], sample_state, [])
   \<and> map_option status (select_order sample_state ''1'') = Some ''payment_pending''
   \<and> map_option payment_status (select_order sample_state ''1'') = Some ''pending''"
proof -
  have h1: "extract_orderId (sample_payload ''order_1'' ''SUCCESS'' (Some 100)) = Some ''1''"
    by (simp add: sample_defs extract_defs)
  have h2: "select_order sample_state ''1'' = Some sample_order"
    by (simp add: select_order_def sql_id_1 sample_defs)
  have h3: "payment_status sample_order \<noteq> ''success''"
    by (simp add: sample_defs)
  have h4: "extract_paymentStatus (sample_payload ''order_1'' ''SUCCESS'' (Some 100)) = Some ''SUCCESS''
            \<or> extract_paymentStatus (sample_payload ''order_1'' ''SUCCESS'' (Some 100)) = Some ''PAID''"
    by (simp add: sample_defs extract_defs)
  have h5: "extract_paymentAmount (sample_payload ''order_1'' ''SUCCESS'' (Some 100)) = Some 100"
    by (simp add: sample_defs extract_defs)
  have h6: "amount_mismatch (Some 100) 504"
    by code_simp
  from webhook_amount_never_compared [OF h1 h2 h3 h4 h5] h2 h6 show ?thesis
    by (simp add: sample_order_def)
qed

subsection \<open>C3: the restaurant's availability at payment confirmation\<close>

text \<open>
  Claim C3 says that both confirmation paths check that the restaurant is online and
  has notifications enabled, start the response timer and notify if so, and mark the
  order \<^verbatim>\<open>pending_restaurant_online\<close> without timer or notification if not.  The webhook
  does; \<^verbatim>\<open>verifyPayment\<close> does not look at the restaurant and never starts a timer.
  For every order whose payment is still open, when the gateway lists a successful
  payment of the right amount, \<^verbatim>\<open>verifyPayment\<close> sets the order to \<^verbatim>\<open>pending\<close> with
  payment status \<^verbatim>\<open>success\<close>, emits \<^verbatim>\<open>newOrder\<close> to the restaurant and requests the
  push notification, and leaves the timer map and the scheduled timeouts as they were,
  whether the restaurant is online or not.
\<close>

theorem verifyPayment_ignores_restaurant_state:
  assumes "select_order st orderId = Some row"
    and "payment_status row \<noteq> ''success''" and "payment_status row \<noteq> ''failed''"
    and "payment_status row \<noteq> ''cancelled''"
    and "find (\<lambda>p. attempt_status p = ''SUCCESS'') payments = Some paid"
    and "\<not> amount_mismatch (attempt_amount paid) (total_price row)"
  shows "verifyPayment (Some payments) orderId st
           = (Response 200 True ''Payment verified successfully''
                [(''order_status'', ''pending''), (''payment_status'', ''success'')],
              mark_order orderId ''pending'' ''success'' st,
              [SocketEmit (''restaurant_'' @ restaurant_uid row) ''newOrder'',
               FCMNotification (restaurant_uid row) ''newOrder''])
       \<and> select_order (mark_order orderId ''pending'' ''success'' st) orderId
           = Some (row\<lparr>status := ''pending'', payment_status := ''success''\<rparr>)
       \<and> orderTimers (mark_order orderId ''pending'' ''success'' st) = orderTimers st
       \<and> timeouts (mark_order orderId ''pending'' ''success'' st) = timeouts st"
proof -
  have "verifyPayment (Some payments) orderId st
           = (Response 200 True ''Payment verified successfully''
                [(''order_status'', ''pending''), (''payment_status'', ''success'')],
              mark_order orderId ''pending'' ''success'' st,
              [SocketEmit (''restaurant_'' @ restaurant_uid row) ''newOrder'',
               FCMNotification (restaurant_uid row) ''newOrder''])"
    using assms by (simp add: verifyPayment_def)
  moreover have "select_order (mark_order orderId ''pending'' ''success'' st) orderId
           = Some (row\<lparr>status := ''pending'', payment_status := ''success''\<rparr>)"
    using select_update_order [OF assms(1)] by (simp add: mark_order_def)
  moreover have "orderTimers (mark_order orderId ''pending'' ''success'' st) = orderTimers st"
    "timeouts (mark_order orderId ''pending'' ''success'' st) = timeouts st"
    by (simp_all add: mark_order_def update_order_def split: option.splits)
  ultimately show ?thesis
    by blast
qed

text \<open>
  With the restaurant offline, \<^verbatim>\<open>verifyPayment\<close> notifies it about order 1 and leaves
  the order \<^verbatim>\<open>pending\<close>, where the webhook marks the order
  \<^verbatim>\<open>pending_restaurant_online\<close> and tells only the customer.
\<close>

theorem verifyPayment_ignores_restaurant_state_witness:
  "verifyPayment (Some [\<lparr>attempt_status = ''SUCCESS'', attempt_amount = Some 504\<rparr>]) ''1''
     (restaurant_offline sample_state)
   = (Response 200 True ''Payment verified successfully''
        [(''order_status'', ''pending''), (''payment_status'', ''success'')],
      restaurant_offline (order_in ''pending'' ''success''),
      [SocketEmit ''restaurant_r1'' ''newOrder'', FCMNotification ''r1'' ''newOrder''])
   \<and> webhookPaymentEvent (Some (sample_payload ''order_1'' ''SUCCESS'' None))
       (restaurant_offline sample_state)
     = (Response 200 True ''Webhook processed''
          [(''orderId'', ''1''), (''paymentStatus'', ''success''), (''restaurantNotified'', ''true'')],
        restaurant_offline (order_in ''pending_restaurant_online'' ''success''),
        [SocketEmit ''customer_c1'' ''orderStatusUpdated''])"
proof -
  let ?st = "restaurant_offline sample_state"
  let ?paid = "\<lparr>attempt_status = ''SUCCESS'', attempt_amount = Some 504\<rparr>"
  have h1: "select_order ?st ''1'' = Some sample_order"
    by (simp add: select_order_def sql_id_1 sample_defs)
  have h2: "payment_status sample_order \<noteq> ''success''"
    "payment_status sample_order \<noteq> ''failed''" "payment_status sample_order \<noteq> ''cancelled''"
    by (simp_all add: sample_defs)
  have h3: "find (\<lambda>p. attempt_status p = ''SUCCESS'') [?paid] = Some ?paid"
    by simp
  have "\<not> amount_mismatch (Some 504) 504"
    by code_simp
  then have h4: "\<not> amount_mismatch (attempt_amount ?paid) (total_price sample_order)"
    by (simp add: sample_defs)
  have st: "mark_order ''1'' ''pending'' ''success'' ?st
              = restaurant_offline (order_in ''pending'' ''success'')"
    by (simp add: mark_order_def update_order_def sql_id_1 sample_defs)
  from verifyPayment_ignores_restaurant_state [OF h1 h2 h3 h4]
  have a: "verifyPayment (Some [?paid]) ''1'' ?st
   = (Response 200 True ''Payment verified successfully''
        [(''order_status'', ''pending''), (''payment_status'', ''success'')],
      restaurant_offline (order_in ''pending'' ''success''),
      [SocketEmit ''restaurant_r1'' ''newOrder'', FCMNotification ''r1'' ''newOrder''])"
    by (simp add: st sample_order_def)
  have b: "webhookPaymentEvent (Some (sample_payload ''order_1'' ''SUCCESS'' None)) ?st
     = (Response 200 True ''Webhook processed''
          [(''orderId'', ''1''), (''paymentStatus'', ''success''), (''restaurantNotified'', ''true'')],
        restaurant_offline (order_in ''pending_restaurant_online'' ''success''),
        [SocketEmit ''customer_c1'' ''orderStatusUpdated''])"
    by (simp add: webhook_defs sql_id_1 sample_defs extract_defs)
  from a b show ?thesis
    by blast
qed

subsection \<open>C4: what the generic status update lets through\<close>

text \<open>
  Claim C4 says that the generic status update permits only the transitions of the state
  machine.  It guards one state: an order that is \<^verbatim>\<open>pending\<close>.  A delivered order can be
  set back to \<^verbatim>\<open>pending\<close>, and an order whose payment is not confirmed can be set to
  \<^verbatim>\<open>delivered\<close>.
\<close>

theorem updateOrderStatus_leaves_terminal_state:
  "updateOrderStatus ''1'' ''pending'' (order_in ''delivered'' ''success'')
   = (Response 200 True ''Status updated'' [], order_in ''pending'' ''success'',
      [SocketEmit ''restaurant_r1'' ''orderStatusUpdated'',
       SocketEmit ''customer_c1'' ''orderStatusUpdated''])
   \<and> updateOrderStatus ''1'' ''delivered'' (order_in ''payment_pending'' ''pending'')
     = (Response 200 True ''Status updated'' [], order_in ''delivered'' ''pending'',
        [SocketEmit ''restaurant_r1'' ''orderStatusUpdated'',
         SocketEmit ''customer_c1'' ''orderStatusUpdated'',
         FCMNotification ''r1'' ''orderStatusUpdated''])"
  by (simp add: updateOrderStatus_def allowed_def select_order_def update_order_def sql_id_1
      sample_defs)

text \<open>
  Claim C4 as amended.  For an order that exists, the generic status update succeeds
  exactly when the requested status is one of the seven allowed values and, if the order
  is \<^verbatim>\<open>pending\<close>, the requested status is \<^verbatim>\<open>cancelled\<close>.  So from \<^verbatim>\<open>pending\<close> a generic
  update to \<^verbatim>\<open>preparing\<close> or \<^verbatim>\<open>rejected\<close> fails (those moves are left to accept and
  reject); from every other status, \<^verbatim>\<open>payment_pending\<close> and the terminal ones included,
  each of the seven values is accepted and written.  A refused update is answered with
  status 400 and changes nothing.
\<close>

theorem updateOrderStatus_transitions:
  assumes "select_order st orderId = Some row"
  shows "(new_status \<in> set allowed \<and> (status row = ''pending'' \<longrightarrow> new_status = ''cancelled'')
           \<longrightarrow> (\<exists>sent. updateOrderStatus orderId new_status st =
                  (Response 200 True ''Status updated'' [],
                   update_order st orderId (\<lambda>r. r\<lparr>status := new_status\<rparr>), sent)) \<and>
               select_order (update_order st orderId (\<lambda>r. r\<lparr>status := new_status\<rparr>)) orderId
                 = Some (row\<lparr>status := new_status\<rparr>))
       \<and> (\<not> (new_status \<in> set allowed \<and>
               (status row = ''pending'' \<longrightarrow> new_status = ''cancelled''))
           \<longrightarrow> (\<exists>msg. updateOrderStatus orderId new_status st = (Response 400 False msg [], st, [])))"
  using assms select_update_order [OF assms, of "\<lambda>r. r\<lparr>status := new_status\<rparr>"]
  by (auto simp: updateOrderStatus_def allowed_def Let_def)

theorem updateOrderStatus_transitions_witness:
  "(\<exists>sent. updateOrderStatus ''1'' ''pending'' (order_in ''delivered'' ''success'') =
      (Response 200 True ''Status updated'' [],
       update_order (order_in ''delivered'' ''success'') ''1'' (\<lambda>r. r\<lparr>status := ''pending''\<rparr>), sent))
   \<and> (\<exists>msg. updateOrderStatus ''1'' ''preparing'' (order_in ''pending'' ''success'') =
         (Response 400 False msg [], order_in ''pending'' ''success'', []))"
proof -
  have h1: "select_order (order_in ''delivered'' ''success'') ''1''
              = Some (sample_order\<lparr>status := ''delivered'', payment_status := ''success''\<rparr>)"
    by (simp add: select_order_def sql_id_1 sample_defs)
  have h2: "select_order (order_in ''pending'' ''success'') ''1''
              = Some (sample_order\<lparr>status := ''pending'', payment_status := ''success''\<rparr>)"
    by (simp add: select_order_def sql_id_1 sample_defs)
  from updateOrderStatus_transitions [OF h1, of "''pending''"]
  have a: "\<exists>sent. updateOrderStatus ''1'' ''pending'' (order_in ''delivered'' ''success'') =
      (Response 200 True ''Status updated'' [],
       update_order (order_in ''delivered'' ''success'') ''1'' (\<lambda>r. r\<lparr>status := ''pending''\<rparr>), sent)"
    by (simp add: allowed_def)
  from updateOrderStatus_transitions [OF h2, of "''preparing''"]
  have b: "\<exists>msg. updateOrderStatus ''1'' ''preparing'' (order_in ''pending'' ''success'') =
         (Response 400 False msg [], order_in ''pending'' ''success'', [])"
    by (simp add: allowed_def)
  from a b show ?thesis by blast
qed

subsection \<open>C5: the fees on a subtotal of 480 rupees\<close>

text \<open>
  Claim C5 says that a subtotal of 480 gives delivery fee 20, packing fee 5, GST 24 and
  platform fee 0, an expected total of 529, so that a declared total of 529 is accepted.
  That is the fee policy of the second server file.  In \<^verbatim>\<open>server.js\<close> the delivery,
  packing and platform fees are 0: two dishes at 240 make a subtotal of 480, the expected
  total is 504, and the order that declares 529 is refused with a total mismatch.
\<close>

theorem createOrder_rejects_529_at_480:
  "calculatedSubtotal sample_state ''r1'' [\<lparr>menu_item_id = 7, quantity = 2\<rparr>] (Finite 0)
     = Inr (Finite 480)
   \<and> createOrder (Some (''session_2'', ''cf_2'')) (sample_request 529) sample_state
       = (Inl (TotalMismatch (Finite 504) (Finite 529)), sample_state)"
proof -
  have a: "calculatedSubtotal sample_state ''r1'' [\<lparr>menu_item_id = 7, quantity = 2\<rparr>] (Finite 0)
             = Inr (Finite 480)"
    by code_simp
  have b: "\<not> js_gt (js_abs (js_sub (Finite 480) (declared_subtotal (sample_request 529))))
                (to_double 0.01)"
    by code_simp
  have c: "js_gt (js_abs (js_sub (expectedTotal (Finite 480)) (to_double 529))) (to_double 0.02)"
    by code_simp
  have d: "expectedTotal (Finite 480) = Finite 504" "to_double 529 = Finite 529"
    by code_simp+
  have "createOrder (Some (''session_2'', ''cf_2'')) (sample_request 529) sample_state
       = (Inl (TotalMismatch (expectedTotal (Finite 480)) (to_double 529)), sample_state)"
    by (simp only: createOrder_valid [OF sample_valid] b c if_True if_False)
  with a d show ?thesis
    by simp
qed

text \<open>
  Claim C5 as amended.  For a valid submission whose recomputed subtotal is 480 (and
  whose declared subtotal passes the subtotal check): the order creation of the second
  server file computes delivery fee 20, packing fee 5, GST 24 and platform fee 0,
  expects 529, accepts a declared total of 529 (the gateway opening the payment
  session) and refuses 520 with a total mismatch; the order creation of \<^verbatim>\<open>server.js\<close>
  computes delivery fee 0, packing fee 0, GST 24 and platform fee 0, expects 504,
  accepts a declared total of 504 and refuses both 529 and 520 with a total mismatch.
\<close>

theorem fee_policies_at_480:
  assumes "valid_submission st rq items total_amount (Finite 480)"
    and "\<not> js_gt (js_abs (js_sub (Finite 480) (declared_subtotal rq))) (to_double 0.01)"
  shows "expectedDeliveryFee2 (Finite 480) = Finite 20 \<and> expectedPackingFee2 = Finite 5
       \<and> expectedGst2 (Finite 480) = Finite 24
       \<and> expectedPlatformFee2 (Finite 480) = Finite 0 \<and> expectedTotal2 (Finite 480) = Finite 529
       \<and> (total_amount = 529 \<longrightarrow>
            (\<exists>st'. createOrder2 (Some (session_id, cf_order_id)) rq st
                     = (Inr (next_order_id st, session_id), st')))
       \<and> (total_amount = 520 \<longrightarrow>
            createOrder2 gateway rq st = (Inl (TotalMismatch (Finite 529) (Finite 520)), st))
       \<and> expectedDeliveryFee (Finite 480) = Finite 0 \<and> expectedPackingFee = Finite 0
       \<and> expectedGst (Finite 480) = Finite 24
       \<and> expectedPlatformFee (Finite 480) = Finite 0 \<and> expectedTotal (Finite 480) = Finite 504
       \<and> (total_amount = 504 \<longrightarrow>
            (\<exists>st'. createOrder (Some (session_id, cf_order_id)) rq st
                     = (Inr (next_order_id st, session_id), st')))
       \<and> (total_amount = 529 \<longrightarrow>
            createOrder gateway rq st = (Inl (TotalMismatch (Finite 504) (Finite 529)), st))
       \<and> (total_amount = 520 \<longrightarrow>
            createOrder gateway rq st = (Inl (TotalMismatch (Finite 504) (Finite 520)), st))"
proof -
  have fees2: "expectedDeliveryFee2 (Finite 480) = Finite 20" "expectedPackingFee2 = Finite 5"
    "expectedGst2 (Finite 480) = Finite 24" "expectedPlatformFee2 (Finite 480) = Finite 0"
    "expectedTotal2 (Finite 480) = Finite 529"
    by code_simp+
  have fees: "expectedDeliveryFee (Finite 480) = Finite 0" "expectedPackingFee = Finite 0"
    "expectedGst (Finite 480) = Finite 24" "expectedPlatformFee (Finite 480) = Finite 0"
    "expectedTotal (Finite 480) = Finite 504"
    by code_simp+
  have doubles: "to_double 504 = Finite 504" "to_double 520 = Finite 520"
    "to_double 529 = Finite 529"
    by code_simp+
  have pass: "\<not> js_gt (js_abs (js_sub (Finite 529) (Finite 529))) (to_double 0.02)"
    "\<not> js_gt (js_abs (js_sub (Finite 504) (Finite 504))) (to_double 0.02)"
    by code_simp+
  have fail: "js_gt (js_abs (js_sub (Finite 529) (Finite 520))) (to_double 0.02)"
    "js_gt (js_abs (js_sub (Finite 504) (Finite 529))) (to_double 0.02)"
    "js_gt (js_abs (js_sub (Finite 504) (Finite 520))) (to_double 0.02)"
    by code_simp+
  have stored: "\<exists>st'. (case insert_order rq items t st of
                         (orderId, st1) \<Rightarrow>
                           open_payment_session (Some (session_id, cf_order_id)) orderId st1)
                      = (Inr (next_order_id st, session_id), st')" for t
    by (simp add: insert_order_def open_payment_session_def Let_def)
  note evaluated = assms(2) doubles pass fail if_True if_False is_finite.simps
    not_True_eq_False
  have second: "\<exists>st'. createOrder2 (Some (session_id, cf_order_id)) rq st
                       = (Inr (next_order_id st, session_id), st')"
    if "total_amount = 529"
    using stored [of 529]
    by (simp only: createOrder2_valid [OF assms(1) [unfolded that]] fees2 evaluated)
  have second': "createOrder2 gateway rq st = (Inl (TotalMismatch (Finite 529) (Finite 520)), st)"
    if "total_amount = 520"
    by (simp only: createOrder2_valid [OF assms(1) [unfolded that]] fees2 evaluated)
  have first: "\<exists>st'. createOrder (Some (session_id, cf_order_id)) rq st
                      = (Inr (next_order_id st, session_id), st')"
    if "total_amount = 504"
    using stored [of 504]
    by (simp only: createOrder_valid [OF assms(1) [unfolded that]] fees evaluated)
  have first': "createOrder gateway rq st = (Inl (TotalMismatch (Finite 504) (Finite 529)), st)"
    if "total_amount = 529"
    by (simp only: createOrder_valid [OF assms(1) [unfolded that]] fees evaluated)
  have first'': "createOrder gateway rq st = (Inl (TotalMismatch (Finite 504) (Finite 520)), st)"
    if "total_amount = 520"
    by (simp only: createOrder_valid [OF assms(1) [unfolded that]] fees evaluated)
  from fees2 fees second second' first first' first'' show ?thesis
    by blast
qed

theorem fee_policies_at_480_witness:
  "(\<exists>st'. createOrder2 (Some (''session_2'', ''cf_2'')) (sample_request 529) sample_state
            = (Inr (next_order_id sample_state, ''session_2''), st'))
   \<and> createOrder2 None (sample_request 520) sample_state
       = (Inl (TotalMismatch (Finite 529) (Finite 520)), sample_state)
   \<and> (\<exists>st'. createOrder (Some (''session_2'', ''cf_2'')) (sample_request 504) sample_state
              = (Inr (next_order_id sample_state, ''session_2''), st'))
   \<and> createOrder None (sample_request 520) sample_state
       = (Inl (TotalMismatch (Finite 504) (Finite 520)), sample_state)"
proof -
  have d: "\<not> js_gt (js_abs (js_sub (Finite 480) (declared_subtotal (sample_request t))))
                (to_double 0.01)" for t
    by code_simp
  from fee_policies_at_480 [OF sample_valid [of 529] d, of "''session_2''" "''cf_2''" None]
  have a: "\<exists>st'. createOrder2 (Some (''session_2'', ''cf_2'')) (sample_request 529) sample_state
            = (Inr (next_order_id sample_state, ''session_2''), st')"
    by simp
  from fee_policies_at_480 [OF sample_valid [of 520] d, of "''session_2''" "''cf_2''" None]
  have b: "createOrder2 None (sample_request 520) sample_state
             = (Inl (TotalMismatch (Finite 529) (Finite 520)), sample_state)"
    "createOrder None (sample_request 520) sample_state
             = (Inl (TotalMismatch (Finite 504) (Finite 520)), sample_state)"
    by simp_all
  from fee_policies_at_480 [OF sample_valid [of 504] d, of "''session_2''" "''cf_2''" None]
  have c: "\<exists>st'. createOrder (Some (''session_2'', ''cf_2'')) (sample_request 504) sample_state
            = (Inr (next_order_id sample_state, ''session_2''), st')"
    by simp
  from a b c show ?thesis
    by blast
qed

subsection \<open>C6: the price check of order creation\<close>




subsection \<open>C7: an order whose payment has failed\<close>

text \<open>
  Claim C7 says that both confirmation paths leave an order alone whose payment status is
  already \<^verbatim>\<open>failed\<close> or \<^verbatim>\<open>cancelled\<close>.  \<^verbatim>\<open>verifyPayment\<close> does.  The webhook returns
  early only for \<^verbatim>\<open>success\<close>: for order 1, cancelled with payment status \<^verbatim>\<open>failed\<close>, a
  webhook that reports \<^verbatim>\<open>SUCCESS\<close> and carries no amount sets the order to \<^verbatim>\<open>pending\<close>
  with payment status \<^verbatim>\<open>success\<close>, starts the timer and notifies the restaurant, and a
  webhook that reports a status the handler does not know sets it back to
  \<^verbatim>\<open>payment_pending\<close> with payment status \<^verbatim>\<open>pending\<close>.
\<close>

theorem webhook_rewrites_failed_order:
  "verifyPayment (Some [\<lparr>attempt_status = ''SUCCESS'', attempt_amount = Some 504\<rparr>]) ''1''
     (order_in ''cancelled'' ''failed'')
   = (Response 200 False ''Payment has already failed''
        [(''order_status'', ''cancelled''), (''payment_status'', ''failed'')],
      order_in ''cancelled'' ''failed'', [])
   \<and> fst (webhookPaymentEvent (Some (sample_payload ''order_1'' ''SUCCESS'' None))
            (order_in ''cancelled'' ''failed''))
     = Response 200 True ''Webhook processed''
         [(''orderId'', ''1''), (''paymentStatus'', ''success''), (''restaurantNotified'', ''true'')]
   \<and> fst (snd (webhookPaymentEvent (Some (sample_payload ''order_1'' ''SUCCESS'' None))
                 (order_in ''cancelled'' ''failed'')))
     = notified_state
   \<and> map_option status (select_order notified_state ''1'') = Some ''pending''
   \<and> map_option payment_status (select_order notified_state ''1'') = Some ''success''
   \<and> SocketEmit ''restaurant_r1'' ''newOrder''
       \<in> set (snd (snd (webhookPaymentEvent (Some (sample_payload ''order_1'' ''SUCCESS'' None))
                           (order_in ''cancelled'' ''failed''))))
   \<and> webhookPaymentEvent (Some (sample_payload ''order_1'' ''USER_DROPPED'' (Some 504)))
       (order_in ''cancelled'' ''failed'')
     = (Response 200 True ''Webhook processed''
          [(''orderId'', ''1''), (''paymentStatus'', ''pending''), (''restaurantNotified'', ''false'')],
        order_in ''payment_pending'' ''pending'',
        [SocketEmit ''customer_c1'' ''orderStatusUpdated''])"
  by (simp add: verifyPayment_def webhook_defs sql_id_1 sample_defs extract_defs)

subsection \<open>C8: the auto-reject callback\<close>

text \<open>
  Claim C8.  When the response timer fires, \<^verbatim>\<open>autoRejectOrder\<close> looks the order up again
  and acts only on an order that is still \<^verbatim>\<open>pending\<close>: it sets the status to
  \<^verbatim>\<open>rejected\<close>, the rejection reason to the fixed text and \<^verbatim>\<open>auto_rejected\<close> to true,
  and emits one event to the restaurant and one to the customer.  On an order that is
  missing or not \<^verbatim>\<open>pending\<close> it changes nothing and emits nothing.  So a timer that
  fires while the order is still \<^verbatim>\<open>pending\<close> rejects it, and after an accept that
  succeeded, the callback for the same order changes nothing and a timer that fires
  leaves every order row as it is.  (The response window itself, 90 seconds of real
  time, is the event that the timer fires.)
\<close>

theorem autoRejectOrder_rechecks_pending:
  "(select_order st orderId = Some row \<and> status row = ''pending'' \<longrightarrow>
      (\<exists>st'. autoRejectOrder orderId st =
         (st', [SocketEmit (''restaurant_'' @ restaurant_uid row) ''orderAutoRejected'',
                SocketEmit (''customer_'' @ customer_uid row) ''orderStatusUpdated'']) \<and>
         select_order st' orderId =
           Some (row\<lparr>status := ''rejected'',
                     rejection_reason := Some ''Order was not accepted within the time limit'',
                     auto_rejected := True\<rparr>)))
   \<and> ((\<forall>r. select_order st orderId = Some r \<longrightarrow> status r \<noteq> ''pending'') \<longrightarrow>
        autoRejectOrder orderId st = (st, []))
   \<and> (timeouts st h = Some orderId \<and> select_order st orderId = Some row \<and>
       status row = ''pending'' \<longrightarrow>
        (\<exists>st'. timer_fires h st =
           (st', [SocketEmit (''restaurant_'' @ restaurant_uid row) ''orderAutoRejected'',
                  SocketEmit (''customer_'' @ customer_uid row) ''orderStatusUpdated'']) \<and>
           select_order st' orderId =
             Some (row\<lparr>status := ''rejected'',
                       rejection_reason := Some ''Order was not accepted within the time limit'',
                       auto_rejected := True\<rparr>)))
   \<and> (acceptOrder acceptedId query_uid st = (Response 200 True msg extra, accepted, sent) \<and>
       sql_id orderId = sql_id acceptedId \<longrightarrow>
        autoRejectOrder orderId accepted = (accepted, []) \<and>
        (timeouts accepted h = Some orderId \<longrightarrow>
           orders (fst (timer_fires h accepted)) = orders accepted \<and>
           snd (timer_fires h accepted) = []))"
proof -
  have rejects: "\<exists>st'. autoRejectOrder orderId s =
         (st', [SocketEmit (''restaurant_'' @ restaurant_uid row) ''orderAutoRejected'',
                SocketEmit (''customer_'' @ customer_uid row) ''orderStatusUpdated'']) \<and>
         select_order st' orderId =
           Some (row\<lparr>status := ''rejected'',
                     rejection_reason := Some ''Order was not accepted within the time limit'',
                     auto_rejected := True\<rparr>)"
    if "select_order s orderId = Some row" and "status row = ''pending''" for s
    using that
    by (auto simp: autoRejectOrder_def Let_def select_order_def update_order_def
        split: option.splits)
  have unscheduled: "select_order (s\<lparr>timeouts := (timeouts s)(h := None)\<rparr>) orderId
                       = select_order s orderId" for s
    by (rule select_order_cong) simp
  have fires: "\<exists>st'. timer_fires h st =
           (st', [SocketEmit (''restaurant_'' @ restaurant_uid row) ''orderAutoRejected'',
                  SocketEmit (''customer_'' @ customer_uid row) ''orderStatusUpdated'']) \<and>
           select_order st' orderId =
             Some (row\<lparr>status := ''rejected'',
                       rejection_reason := Some ''Order was not accepted within the time limit'',
                       auto_rejected := True\<rparr>)"
    if t: "timeouts st h = Some orderId" and r: "select_order st orderId = Some row"
      and p: "status row = ''pending''"
  proof -
    from r have "select_order (st\<lparr>timeouts := (timeouts st)(h := None)\<rparr>) orderId = Some row"
      by (simp add: unscheduled)
    from rejects [OF this p] t show ?thesis
      by (simp add: timer_fires_def)
  qed
  have accepted: "autoRejectOrder orderId accepted = (accepted, []) \<and>
        (timeouts accepted h = Some orderId \<longrightarrow>
           orders (fst (timer_fires h accepted)) = orders accepted \<and>
           snd (timer_fires h accepted) = [])"
    if a: "acceptOrder acceptedId query_uid st = (Response 200 True msg extra, accepted, sent)"
      and i: "sql_id orderId = sql_id acceptedId"
  proof -
    let ?s = "accepted\<lparr>timeouts := (timeouts accepted)(h := None)\<rparr>"
    from acceptOrder_not_pending [OF a i]
    have n: "\<forall>r. select_order accepted orderId = Some r \<longrightarrow> status r \<noteq> ''pending''" .
    then have "\<forall>r. select_order ?s orderId = Some r \<longrightarrow> status r \<noteq> ''pending''"
      by (simp add: unscheduled)
    then have "autoRejectOrder orderId ?s = (?s, [])"
      by (rule autoRejectOrder_idle)
    then have "timeouts accepted h = Some orderId \<longrightarrow>
           orders (fst (timer_fires h accepted)) = orders accepted \<and>
           snd (timer_fires h accepted) = []"
      by (simp add: timer_fires_def)
    with autoRejectOrder_idle [OF n] show ?thesis
      by blast
  qed
  from rejects [of st] autoRejectOrder_idle [of st orderId] fires accepted show ?thesis
    by blast
qed

theorem autoRejectOrder_rechecks_pending_witness:
  "(\<exists>st'. timer_fires 0 notified_state =
      (st', [SocketEmit ''restaurant_r1'' ''orderAutoRejected'',
             SocketEmit ''customer_c1'' ''orderStatusUpdated'']) \<and>
      select_order st' ''1'' =
        Some (sample_order\<lparr>status := ''rejected'', payment_status := ''success'',
                rejection_reason := Some ''Order was not accepted within the time limit'',
                auto_rejected := True\<rparr>))
   \<and> autoRejectOrder ''1'' (order_in ''preparing'' ''success'')
       = (order_in ''preparing'' ''success'', [])"
proof -
  let ?row = "sample_order\<lparr>status := ''pending'', payment_status := ''success''\<rparr>"
  have h1: "timeouts notified_state 0 = Some ''1'' \<and>
            select_order notified_state ''1'' = Some ?row \<and> status ?row = ''pending''"
    by (simp add: select_order_def sql_id_1 sample_defs)
  have h2: "\<forall>r. select_order (order_in ''preparing'' ''success'') ''1'' = Some r
              \<longrightarrow> status r \<noteq> ''pending''"
    by (simp add: select_order_def sql_id_1 sample_defs)
  from autoRejectOrder_rechecks_pending
    [of notified_state "''1''" ?row 0, THEN conjunct2, THEN conjunct2, THEN conjunct1] h1
  have a: "\<exists>st'. timer_fires 0 notified_state =
      (st', [SocketEmit ''restaurant_r1'' ''orderAutoRejected'',
             SocketEmit ''customer_c1'' ''orderStatusUpdated'']) \<and>
      select_order st' ''1'' =
        Some (sample_order\<lparr>status := ''rejected'', payment_status := ''success'',
                rejection_reason := Some ''Order was not accepted within the time limit'',
                auto_rejected := True\<rparr>)"
    by (simp add: sample_order_def)
  from autoRejectOrder_rechecks_pending
    [of "order_in ''preparing'' ''success''" "''1''", THEN conjunct2, THEN conjunct1] h2
  have b: "autoRejectOrder ''1'' (order_in ''preparing'' ''success'')
             = (order_in ''preparing'' ''success'', [])"
    by blast
  from a b show ?thesis
    by blast
qed

subsection \<open>C9: the timer when the restaurant answers\<close>

text \<open>
  Claim C9 says that a successful accept or reject cancels the auto-reject timer of the
  order and removes its entry from the timer map.  The webhook, the only place that
  stores a timer, stores it under the order id it took from the payload, a string;
  accept and reject look it up under \<^verbatim>\<open>Number.parseInt(orderId)\<close>, a number, and a
  \<^verbatim>\<open>Map\<close> holds these as different keys.  So in every state whose timer map has only
  string keys, accept and reject, whatever they answer, leave the timer map and the
  scheduled timeouts exactly as they were: no timer is cancelled and no entry removed.
\<close>

theorem accept_reject_leave_timers:
  assumes "\<forall>k. orderTimers st k \<noteq> None \<longrightarrow> (\<exists>s. k = KStr s)"
  shows "orderTimers (fst (snd (acceptOrder orderId query_uid st))) = orderTimers st
       \<and> timeouts (fst (snd (acceptOrder orderId query_uid st))) = timeouts st
       \<and> orderTimers (fst (snd (rejectOrder orderId query_uid reason st))) = orderTimers st
       \<and> timeouts (fst (snd (rejectOrder orderId query_uid reason st))) = timeouts st"
proof -
  have "orderTimers st (parseInt orderId) = None"
  proof (rule ccontr)
    assume "orderTimers st (parseInt orderId) \<noteq> None"
    with assms obtain s where "parseInt orderId = KStr s"
      by blast
    then show False
      by (simp add: parseInt_def split: option.splits)
  qed
  then have clear: "clear_order_timer (parseInt orderId) st = st"
    by (simp add: clear_order_timer_def)
  have upd: "orderTimers (update_order st orderId f) = orderTimers st"
    "timeouts (update_order st orderId f) = timeouts st" for f
    by (simp_all add: update_order_def split: option.splits)
  have "orderTimers (fst (snd (acceptOrder orderId query_uid st))) = orderTimers st"
    "timeouts (fst (snd (acceptOrder orderId query_uid st))) = timeouts st"
    by (simp_all add: acceptOrder_def clear upd Let_def split: option.splits)
  moreover have
    "orderTimers (fst (snd (rejectOrder orderId query_uid reason st))) = orderTimers st"
    "timeouts (fst (snd (rejectOrder orderId query_uid reason st))) = timeouts st"
    by (simp_all add: rejectOrder_def clear upd Let_def split: option.splits)
  ultimately show ?thesis
    by blast
qed

text \<open>
  After the webhook has confirmed order 1 and started timer 0, accept succeeds and sets
  the order to \<^verbatim>\<open>preparing\<close>, while the timer is still in the map and still scheduled.
\<close>

theorem accept_reject_leave_timers_witness:
  "fst (snd (webhookPaymentEvent (Some (sample_payload ''order_1'' ''SUCCESS'' None))
              sample_state))
   = notified_state
   \<and> orderTimers notified_state (KStr ''1'') = Some 0
   \<and> timeouts notified_state 0 = Some ''1''
   \<and> fst (acceptOrder ''1'' (Some ''r1'') notified_state)
     = Response 200 True ''Order accepted successfully'' []
   \<and> map_option status
       (select_order (fst (snd (acceptOrder ''1'' (Some ''r1'') notified_state))) ''1'')
     = Some ''preparing''
   \<and> orderTimers (fst (snd (acceptOrder ''1'' (Some ''r1'') notified_state))) (KStr ''1'') = Some 0
   \<and> timeouts (fst (snd (acceptOrder ''1'' (Some ''r1'') notified_state))) 0 = Some ''1''"
proof -
  have h: "\<forall>k. orderTimers notified_state k \<noteq> None \<longrightarrow> (\<exists>s. k = KStr s)"
    by (simp add: sample_defs)
  have w: "fst (snd (webhookPaymentEvent (Some (sample_payload ''order_1'' ''SUCCESS'' None))
              sample_state)) = notified_state"
    by (simp add: webhook_defs sql_id_1 sample_defs extract_defs)
  have t: "orderTimers notified_state (KStr ''1'') = Some 0" "timeouts notified_state 0 = Some ''1''"
    by (simp_all add: sample_defs)
  have r: "fst (acceptOrder ''1'' (Some ''r1'') notified_state)
             = Response 200 True ''Order accepted successfully'' []"
    "map_option status
       (select_order (fst (snd (acceptOrder ''1'' (Some ''r1'') notified_state))) ''1'')
     = Some ''preparing''"
    by (simp_all add: acceptOrder_def validateRestaurantUid_def js_trim_def is_space_def
        clear_order_timer_def parseInt_def select_order_def update_order_def sql_id_1
        sample_defs)
  from accept_reject_leave_timers [OF h, of "''1''" "Some ''r1''" None] w t r show ?thesis
    by simp
qed

subsection \<open>C10: a successful webhook without an amount\<close>



end
